theory Spec2Isabelle
  imports Complex_Main
begin

section \<open>JavaScript values used by the DEX services\<close>

text \<open>
  Strings are character lists. \<open>toLowerCase\<close> and \<open>toUpperCase\<close> convert the ASCII
  letters and leave every other character as it is (addresses and the symbols compared by
  the services are ASCII).
\<close>

definition upper_letters :: string where
  "upper_letters = ''ABCDEFGHIJKLMNOPQRSTUVWXYZ''"

definition lower_letters :: string where
  "lower_letters = ''abcdefghijklmnopqrstuvwxyz''"

definition toLowerCase_char :: "char \<Rightarrow> char" where
  "toLowerCase_char c =
     (case map_of (zip upper_letters lower_letters) c of None \<Rightarrow> c | Some l \<Rightarrow> l)"

definition toUpperCase_char :: "char \<Rightarrow> char" where
  "toUpperCase_char c =
     (case map_of (zip lower_letters upper_letters) c of None \<Rightarrow> c | Some u \<Rightarrow> u)"

definition toLowerCase :: "string \<Rightarrow> string" where
  "toLowerCase s = map toLowerCase_char s"

definition toUpperCase :: "string \<Rightarrow> string" where
  "toUpperCase s = map toUpperCase_char s"

text \<open>
  A JavaScript \<open>number\<close> is an IEEE-754 double: a finite value, \<open>NaN\<close> or one of the
  two infinities. The finite doubles are the numbers \<open>m * 2^e\<close> with \<open>|m| < 2^53\<close> and
  \<open>-1074 \<le> e \<le> 971\<close>. An arithmetic operation gives the exact result rounded to the
  nearest double, a tie going to the even significand (\<open>round64\<close>): below \<open>2^-1022\<close> the
  doubles are the multiples of \<open>2^-1074\<close> (the subnormal numbers), and a result that
  rounds beyond the largest double, \<open>MAX_VALUE\<close>, is an infinity. The operations follow
  the rules of the language for the special values. Zero has no sign in the model: the two
  zeros of a double are equal under every comparison, and the one divisor of the services,
  the sum of a reserve and an amount, is a zero only with a zero numerator or by exact
  cancellation, which gives the positive zero.
\<close>

datatype number = NaN | NegInf | Fin real | PosInf

text \<open>Rounding to the nearest integer, a tie going to the even one.\<close>

definition rne :: "real \<Rightarrow> int" where
  "rne y =
     (let n = \<lfloor>y\<rfloor>; d = y - of_int n
      in if d < 1 / 2 then n else if 1 / 2 < d then n + 1 else if even n then n else n + 1)"

text \<open>
  The binary exponent of a double near \<open>x\<close>, not below the exponent of the subnormal
  numbers, and the distance of two neighbouring doubles there.
\<close>

definition exponent :: "real \<Rightarrow> int" where
  "exponent x = max \<lfloor>log 2 \<bar>x\<bar>\<rfloor> (- 1022)"

definition ulp :: "real \<Rightarrow> real" where
  "ulp x = 2 powr (of_int (exponent x) - 52)"

text \<open>The nearest number with a 53-bit significand, before the test for overflow.\<close>

definition fl64 :: "real \<Rightarrow> real" where
  "fl64 x = (if x = 0 then 0 else of_int (rne (x / ulp x)) * ulp x)"

text \<open>\<open>Number.MAX_VALUE\<close>, the largest finite double.\<close>

definition MAX_VALUE :: real where
  "MAX_VALUE = (2 ^ 53 - 1) * 2 ^ 971"

definition round64 :: "real \<Rightarrow> number" where
  "round64 x =
     (if MAX_VALUE < fl64 x then PosInf
      else if fl64 x < - MAX_VALUE then NegInf
      else Fin (fl64 x))"

text \<open>
  The reals that are doubles: rounding leaves them as they are. What \<open>parseFloat\<close>
  returns is a double.
\<close>

definition is_double :: "real \<Rightarrow> bool" where
  "is_double x = (fl64 x = x \<and> \<bar>x\<bar> \<le> MAX_VALUE)"


fun num_plus :: "number \<Rightarrow> number \<Rightarrow> number" where
  "num_plus NaN _ = NaN"
| "num_plus _ NaN = NaN"
| "num_plus PosInf NegInf = NaN"
| "num_plus NegInf PosInf = NaN"
| "num_plus PosInf _ = PosInf"
| "num_plus _ PosInf = PosInf"
| "num_plus NegInf _ = NegInf"
| "num_plus _ NegInf = NegInf"
| "num_plus (Fin a) (Fin b) = round64 (a + b)"

fun num_times :: "number \<Rightarrow> number \<Rightarrow> number" where
  "num_times NaN _ = NaN"
| "num_times _ NaN = NaN"
| "num_times (Fin a) (Fin b) = round64 (a * b)"
| "num_times (Fin a) PosInf = (if a = 0 then NaN else if 0 < a then PosInf else NegInf)"
| "num_times (Fin a) NegInf = (if a = 0 then NaN else if 0 < a then NegInf else PosInf)"
| "num_times PosInf (Fin b) = (if b = 0 then NaN else if 0 < b then PosInf else NegInf)"
| "num_times NegInf (Fin b) = (if b = 0 then NaN else if 0 < b then NegInf else PosInf)"
| "num_times PosInf PosInf = PosInf"
| "num_times NegInf NegInf = PosInf"
| "num_times PosInf NegInf = NegInf"
| "num_times NegInf PosInf = NegInf"

fun num_divide :: "number \<Rightarrow> number \<Rightarrow> number" where
  "num_divide NaN _ = NaN"
| "num_divide _ NaN = NaN"
| "num_divide (Fin a) (Fin b) =
     (if b = 0 then (if a = 0 then NaN else if 0 < a then PosInf else NegInf)
      else round64 (a / b))"
| "num_divide (Fin a) _ = Fin 0"
| "num_divide PosInf (Fin b) = (if 0 \<le> b then PosInf else NegInf)"
| "num_divide NegInf (Fin b) = (if 0 \<le> b then NegInf else PosInf)"
| "num_divide _ _ = NaN"

text \<open>\<open>Math.min\<close> of two numbers: \<open>NaN\<close> as soon as one of them is.\<close>

fun Math_min :: "number \<Rightarrow> number \<Rightarrow> number" where
  "Math_min NaN _ = NaN"
| "Math_min _ NaN = NaN"
| "Math_min NegInf _ = NegInf"
| "Math_min _ NegInf = NegInf"
| "Math_min PosInf y = y"
| "Math_min x PosInf = x"
| "Math_min (Fin a) (Fin b) = Fin (min a b)"

text \<open>The comparisons \<open><\<close> and \<open><=\<close> of two numbers: false as soon as one is \<open>NaN\<close>.\<close>

fun num_less :: "number \<Rightarrow> number \<Rightarrow> bool" where
  "num_less NaN _ = False"
| "num_less _ NaN = False"
| "num_less _ NegInf = False"
| "num_less NegInf _ = True"
| "num_less PosInf _ = False"
| "num_less _ PosInf = True"
| "num_less (Fin a) (Fin b) = (a < b)"

definition num_le :: "number \<Rightarrow> number \<Rightarrow> bool" where
  "num_le x y = (num_less x y \<or> (x = y \<and> x \<noteq> NaN))"


text \<open>The decimal rendering of a non-negative \<open>bigint\<close> (\<open>toString()\<close>).\<close>

definition digit_char :: "nat \<Rightarrow> char" where
  "digit_char n = ''0123456789'' ! n"

function bigint_toString :: "nat \<Rightarrow> string" where
  "bigint_toString n =
     (if n < 10 then [digit_char n] else bigint_toString (n div 10) @ [digit_char (n mod 10)])"
  by pat_completeness auto
termination
  by (relation "measure id") auto

declare bigint_toString.simps [simp del]

text \<open>A field that holds a number in one service and a string in another.\<close>

datatype jsvalue = JNumber number | JString string

section \<open>Library functions\<close>

text \<open>
  The services call \<open>parseUnits\<close> and \<open>formatUnits\<close> of the viem library and the
  built-in \<open>parseFloat\<close>. They are not code of this repository and are parameters of the
  model: \<open>parseUnits\<close> gives \<open>None\<close> where the library throws; \<open>formatUnits\<close> is only
  applied to unsigned contract outputs.
\<close>

record Lib =
  parseUnits :: "string \<Rightarrow> nat \<Rightarrow> int option"
  formatUnits :: "nat \<Rightarrow> nat \<Rightarrow> string"
  parseFloat :: "string \<Rightarrow> number"

section \<open>Data model\<close>

text \<open>
  Modelled from the spec: the interfaces of \<open>@/config/dex/types\<close>, a file that is not
  among the sources. The records follow the data model of the specification and have the
  fields that the services read and write (\<open>Token\<close> as the token lists declare it).
  \<open>isNative\<close> is an optional flag: a token without it reads as \<open>undefined\<close>, which the
  test \<open>=== true\<close> and the conditional both take as false. The ABIs of a configuration
  are left out.
\<close>

record Token =
  chainId :: nat
  address :: string
  decimals :: nat
  symbol :: string
  name :: string
  logoURI :: string
  isNative :: bool

record DexConfig =
  tokens :: "Token list"
  router :: string
  factory :: string
  wethAddress :: string
  subgraphUrl :: string

record QuoteResult =
  amountOut :: string
  priceImpact :: jsvalue
  route :: "string list"
  gasEstimate :: "string option"
  executionPrice :: "string option"

record PairInfo =
  token0 :: Token
  token1 :: Token
  pairAddress :: string
  reserve0 :: string
  reserve1 :: string
  totalSupply :: string

text \<open>
  Modelled from the spec: the error classes of \<open>IDexService.ts\<close>, which is not among the
  sources. The taxonomy of the specification (PairNotFound, SwapFailed, NoClient,
  QuoteFailed, ...) is one family of DEX errors: \<open>PairNotFoundError\<close> and
  \<open>SwapFailedError\<close> are kinds of \<open>DexError\<close>, and \<open>DexError\<close> itself carries a code
  and the name of the DEX. Every other thrown value (a TypeError, an error of the RPC
  client) is \<open>OtherError\<close>. Message texts are not modelled.
\<close>

datatype error =
    DexError string string
  | PairNotFoundError string string string
  | SwapFailedError string
  | OtherError

fun instanceof_DexError :: "error \<Rightarrow> bool" where
  "instanceof_DexError OtherError = False"
| "instanceof_DexError _ = True"

section \<open>The read interface of the chain\<close>

text \<open>
  What a public client answers to the contract reads of the services, by contract
  address: the factory's \<open>getPair\<close>, a pair's \<open>getReserves\<close>, \<open>token0\<close> and
  \<open>totalSupply\<close>, the router's \<open>getAmountsOut\<close>. \<open>None\<close> is a call that throws (an RPC
  failure, a revert, an argument that cannot be encoded). One quote reads one snapshot:
  the same read gives the same answer. The client itself may be missing
  (\<open>PublicClient option\<close>).
\<close>

record PublicClient =
  read_getPair :: "string \<Rightarrow> string \<Rightarrow> string \<Rightarrow> string option"
  read_getReserves :: "string \<Rightarrow> (nat \<times> nat \<times> nat) option"
  read_token0 :: "string \<Rightarrow> string option"
  read_totalSupply :: "string \<Rightarrow> nat option"
  read_getAmountsOut :: "string \<Rightarrow> int \<Rightarrow> string list \<Rightarrow> nat list option"

section \<open>The three adapters\<close>

datatype dex = KalySwapService | PancakeSwapService | UniswapV2Service

fun getName :: "dex \<Rightarrow> string" where
  "getName KalySwapService = ''KalySwap''"
| "getName PancakeSwapService = ''PancakeSwap''"
| "getName UniswapV2Service = ''Camelot''"

fun getChainId :: "dex \<Rightarrow> nat" where
  "getChainId KalySwapService = 3888"
| "getChainId PancakeSwapService = 56"
| "getChainId UniswapV2Service = 42161"

section \<open>BaseDexService: pair resolution\<close>

definition ZERO_ADDRESS :: string where
  "ZERO_ADDRESS = ''0x0000000000000000000000000000000000000000''"

definition getWethAddress :: "DexConfig \<Rightarrow> string" where
  "getWethAddress cfg = wethAddress cfg"

text \<open>The address a token has for the contracts: a native token stands for its wrapped form.\<close>

definition resolveAddress :: "DexConfig \<Rightarrow> Token \<Rightarrow> string" where
  "resolveAddress cfg t = (if isNative t then getWethAddress cfg else address t)"

text \<open>The body of the \<open>try\<close> block of \<open>getPairAddress\<close>: \<open>Inl\<close> is a thrown error.\<close>

definition getPairAddress_try ::
  "dex \<Rightarrow> DexConfig \<Rightarrow> Token \<Rightarrow> Token \<Rightarrow> PublicClient option \<Rightarrow> error + string option" where
  "getPairAddress_try d cfg tokenA tokenB publicClient =
     (case publicClient of
        None \<Rightarrow> Inl (DexError ''NO_CLIENT'' (getName d))
      | Some c \<Rightarrow>
          (let addressA = resolveAddress cfg tokenA;
               addressB = resolveAddress cfg tokenB
           in case read_getPair c (factory cfg) addressA addressB of
                None \<Rightarrow> Inl OtherError
              | Some pair \<Rightarrow> if pair = ZERO_ADDRESS then Inr None else Inr (Some pair)))"

definition getPairAddress ::
  "dex \<Rightarrow> DexConfig \<Rightarrow> Token \<Rightarrow> Token \<Rightarrow> PublicClient option \<Rightarrow> string option" where
  "getPairAddress d cfg tokenA tokenB publicClient =
     (case getPairAddress_try d cfg tokenA tokenB publicClient of
        Inl e \<Rightarrow> None
      | Inr r \<Rightarrow> r)"

text \<open>
  \<open>getPairInfo\<close>: the test \<open>!pairAddress\<close> holds for \<open>null\<close> and for the empty string.
  The two reads run under one \<open>Promise.all\<close>, which fails when either fails.
\<close>

definition getPairInfo_try ::
  "dex \<Rightarrow> DexConfig \<Rightarrow> Token \<Rightarrow> Token \<Rightarrow> PublicClient option \<Rightarrow> error + PairInfo option" where
  "getPairInfo_try d cfg tokenA tokenB publicClient =
     (case getPairAddress d cfg tokenA tokenB publicClient of
        None \<Rightarrow> Inr None
      | Some pair \<Rightarrow>
          if pair = [] then Inr None
          else (case publicClient of
                  None \<Rightarrow> Inl (DexError ''NO_CLIENT'' (getName d))
                | Some c \<Rightarrow>
                    (case (read_getReserves c pair, read_totalSupply c pair) of
                       (Some (r0, r1, ts), Some supply) \<Rightarrow>
                         Inr (Some \<lparr>token0 = tokenA, token1 = tokenB, pairAddress = pair,
                                    reserve0 = bigint_toString r0,
                                    reserve1 = bigint_toString r1,
                                    totalSupply = bigint_toString supply\<rparr>)
                     | _ \<Rightarrow> Inl OtherError)))"

definition getPairInfo ::
  "dex \<Rightarrow> DexConfig \<Rightarrow> Token \<Rightarrow> Token \<Rightarrow> PublicClient option \<Rightarrow> PairInfo option" where
  "getPairInfo d cfg tokenA tokenB publicClient =
     (case getPairInfo_try d cfg tokenA tokenB publicClient of
        Inl e \<Rightarrow> None
      | Inr r \<Rightarrow> r)"

definition canSwapDirectly ::
  "dex \<Rightarrow> DexConfig \<Rightarrow> Token \<Rightarrow> Token \<Rightarrow> PublicClient option \<Rightarrow> bool" where
  "canSwapDirectly d cfg tokenA tokenB publicClient =
     (getPairAddress d cfg tokenA tokenB publicClient \<noteq> None)"

section \<open>BaseDexService: price impact\<close>

text \<open>
  The body of the \<open>try\<close> block of \<open>calculatePriceImpact\<close>. The pair contract is read
  for its reserves and its \<open>token0\<close>; the reserve of the input side is the one whose
  token address equals the resolved address of \<open>tokenIn\<close>, letter case apart.
\<close>

definition calculatePriceImpact_try ::
  "dex \<Rightarrow> DexConfig \<Rightarrow> Lib \<Rightarrow> Token \<Rightarrow> Token \<Rightarrow> string \<Rightarrow> PublicClient option
     \<Rightarrow> error + number" where
  "calculatePriceImpact_try d cfg L tokenIn tokenOut amountIn publicClient =
     (case getPairAddress d cfg tokenIn tokenOut publicClient of
        None \<Rightarrow> Inr (Fin 0)
      | Some pair \<Rightarrow>
          if pair = [] then Inr (Fin 0)
          else (case publicClient of
                  None \<Rightarrow> Inl OtherError
                | Some c \<Rightarrow>
                    (case (read_getReserves c pair, read_token0 c pair) of
                       (Some (r0, r1, ts), Some token0Address) \<Rightarrow>
                         (let tokenInAddress = resolveAddress cfg tokenIn;
                              isTokenInToken0 =
                                (toLowerCase token0Address = toLowerCase tokenInAddress);
                              reserveIn = (if isTokenInToken0 then r0 else r1);
                              reserveInFormatted =
                                parseFloat L (formatUnits L reserveIn (decimals tokenIn));
                              amountInValue = parseFloat L amountIn;
                              impact =
                                num_times
                                  (num_divide amountInValue
                                     (num_plus reserveInFormatted amountInValue))
                                  (Fin 100)
                          in Inr (Math_min impact (Fin 100)))
                     | _ \<Rightarrow> Inl OtherError)))"

definition calculatePriceImpact ::
  "dex \<Rightarrow> DexConfig \<Rightarrow> Lib \<Rightarrow> Token \<Rightarrow> Token \<Rightarrow> string \<Rightarrow> PublicClient option \<Rightarrow> number" where
  "calculatePriceImpact d cfg L tokenIn tokenOut amountIn publicClient =
     (case calculatePriceImpact_try d cfg L tokenIn tokenOut amountIn publicClient of
        Inl e \<Rightarrow> Fin 0
      | Inr x \<Rightarrow> x)"

text \<open>
  The range the specification gives for a price impact: a finite number between 0 and 100.
\<close>

fun in_percent_range :: "number \<Rightarrow> bool" where
  "in_percent_range (Fin x) = (0 \<le> x \<and> x \<le> 100)"
| "in_percent_range _ = False"

section \<open>Route planning\<close>

text \<open>
  The two blocks the route functions are built from. \<open>routeViaWrapped\<close> is the block
  "try routing through the wrapped native token": it runs when neither resolved endpoint
  is the configured wrapped address and the token list has a token with that address.
  \<open>routeViaSymbol\<close> is the block "try routing through USDT" (or USDC, or BUSD): the
  token is looked up by its exact symbol.
\<close>

definition routeViaWrapped ::
  "dex \<Rightarrow> DexConfig \<Rightarrow> Token \<Rightarrow> Token \<Rightarrow> PublicClient option \<Rightarrow> string list option" where
  "routeViaWrapped d cfg tokenIn tokenOut publicClient =
     (let addressIn = resolveAddress cfg tokenIn;
          addressOut = resolveAddress cfg tokenOut;
          wethAddr = getWethAddress cfg
      in if addressIn \<noteq> wethAddr \<and> addressOut \<noteq> wethAddr
         then (case find (\<lambda>t. toLowerCase (address t) = toLowerCase wethAddr) (tokens cfg) of
                 None \<Rightarrow> None
               | Some wethToken \<Rightarrow>
                   if canSwapDirectly d cfg tokenIn wethToken publicClient
                      \<and> canSwapDirectly d cfg wethToken tokenOut publicClient
                   then Some [addressIn, wethAddr, addressOut]
                   else None)
         else None)"

definition routeViaSymbol ::
  "dex \<Rightarrow> DexConfig \<Rightarrow> string \<Rightarrow> Token \<Rightarrow> Token \<Rightarrow> PublicClient option
     \<Rightarrow> string list option" where
  "routeViaSymbol d cfg bridgeSymbol tokenIn tokenOut publicClient =
     (let addressIn = resolveAddress cfg tokenIn;
          addressOut = resolveAddress cfg tokenOut
      in case find (\<lambda>t. symbol t = bridgeSymbol) (tokens cfg) of
           None \<Rightarrow> None
         | Some bridgeToken \<Rightarrow>
             if addressIn \<noteq> address bridgeToken \<and> addressOut \<noteq> address bridgeToken
                \<and> canSwapDirectly d cfg tokenIn bridgeToken publicClient
                \<and> canSwapDirectly d cfg bridgeToken tokenOut publicClient
             then Some [addressIn, address bridgeToken, addressOut]
             else None)"

text \<open>\<open>BaseDexService.getSwapRoute\<close>, which every adapter overrides.\<close>

definition BaseDexService_getSwapRoute ::
  "dex \<Rightarrow> DexConfig \<Rightarrow> Token \<Rightarrow> Token \<Rightarrow> PublicClient option \<Rightarrow> string list" where
  "BaseDexService_getSwapRoute d cfg tokenIn tokenOut publicClient =
     (if canSwapDirectly d cfg tokenIn tokenOut publicClient
      then [resolveAddress cfg tokenIn, resolveAddress cfg tokenOut]
      else (case routeViaWrapped d cfg tokenIn tokenOut publicClient of
              Some r \<Rightarrow> r
            | None \<Rightarrow> []))"

definition KalySwapService_getSwapRoute ::
  "DexConfig \<Rightarrow> Token \<Rightarrow> Token \<Rightarrow> PublicClient option \<Rightarrow> string list" where
  "KalySwapService_getSwapRoute cfg tokenIn tokenOut publicClient =
     (if canSwapDirectly KalySwapService cfg tokenIn tokenOut publicClient
      then [resolveAddress cfg tokenIn, resolveAddress cfg tokenOut]
      else (case routeViaWrapped KalySwapService cfg tokenIn tokenOut publicClient of
              Some r \<Rightarrow> r
            | None \<Rightarrow>
                (case routeViaSymbol KalySwapService cfg ''USDT'' tokenIn tokenOut
                        publicClient of
                   Some r \<Rightarrow> r
                 | None \<Rightarrow> [])))"

definition PancakeSwapService_getSwapRoute ::
  "DexConfig \<Rightarrow> Token \<Rightarrow> Token \<Rightarrow> PublicClient option \<Rightarrow> string list" where
  "PancakeSwapService_getSwapRoute cfg tokenIn tokenOut publicClient =
     (if canSwapDirectly PancakeSwapService cfg tokenIn tokenOut publicClient
      then [resolveAddress cfg tokenIn, resolveAddress cfg tokenOut]
      else (case routeViaWrapped PancakeSwapService cfg tokenIn tokenOut publicClient of
              Some r \<Rightarrow> r
            | None \<Rightarrow>
                (case routeViaSymbol PancakeSwapService cfg ''USDT'' tokenIn tokenOut
                        publicClient of
                   Some r \<Rightarrow> r
                 | None \<Rightarrow>
                     (case routeViaSymbol PancakeSwapService cfg ''BUSD'' tokenIn tokenOut
                             publicClient of
                        Some r \<Rightarrow> r
                      | None \<Rightarrow> []))))"

definition UniswapV2Service_getSwapRoute ::
  "DexConfig \<Rightarrow> Token \<Rightarrow> Token \<Rightarrow> PublicClient option \<Rightarrow> string list" where
  "UniswapV2Service_getSwapRoute cfg tokenIn tokenOut publicClient =
     (if canSwapDirectly UniswapV2Service cfg tokenIn tokenOut publicClient
      then [resolveAddress cfg tokenIn, resolveAddress cfg tokenOut]
      else (case routeViaWrapped UniswapV2Service cfg tokenIn tokenOut publicClient of
              Some r \<Rightarrow> r
            | None \<Rightarrow>
                (case routeViaSymbol UniswapV2Service cfg ''USDC'' tokenIn tokenOut
                        publicClient of
                   Some r \<Rightarrow> r
                 | None \<Rightarrow>
                     (case routeViaSymbol UniswapV2Service cfg ''USDT'' tokenIn tokenOut
                             publicClient of
                        Some r \<Rightarrow> r
                      | None \<Rightarrow> []))))"

text \<open>The call \<open>this.getSwapRoute\<close>: each adapter runs its own override.\<close>

fun getSwapRoute ::
  "dex \<Rightarrow> DexConfig \<Rightarrow> Token \<Rightarrow> Token \<Rightarrow> PublicClient option \<Rightarrow> string list" where
  "getSwapRoute KalySwapService = KalySwapService_getSwapRoute"
| "getSwapRoute PancakeSwapService = PancakeSwapService_getSwapRoute"
| "getSwapRoute UniswapV2Service = UniswapV2Service_getSwapRoute"

text \<open>
  The route planner in the words of the specification: the direct pair first, then the
  first usable bridge of an ordered list of candidates, the wrapped native token ahead of
  the stablecoins of the chain in their fixed order. A candidate is a configured token
  and the address it has in the route; it is usable when neither resolved endpoint is
  that address and both legs have a pair.
\<close>

fun stablecoinBridges :: "dex \<Rightarrow> string list" where
  "stablecoinBridges KalySwapService = [''USDT'']"
| "stablecoinBridges UniswapV2Service = [''USDC'', ''USDT'']"
| "stablecoinBridges PancakeSwapService = [''USDT'', ''BUSD'']"

definition bridgeCandidates :: "dex \<Rightarrow> DexConfig \<Rightarrow> (Token \<times> string) list" where
  "bridgeCandidates d cfg =
     List.map_filter id
       (map_option (\<lambda>t. (t, wethAddress cfg))
          (find (\<lambda>t. toLowerCase (address t) = toLowerCase (wethAddress cfg)) (tokens cfg))
        # map (\<lambda>s. map_option (\<lambda>t. (t, address t)) (find (\<lambda>t. symbol t = s) (tokens cfg)))
            (stablecoinBridges d))"

definition usableBridge ::
  "dex \<Rightarrow> DexConfig \<Rightarrow> Token \<Rightarrow> Token \<Rightarrow> PublicClient option \<Rightarrow> Token \<times> string \<Rightarrow> bool" where
  "usableBridge d cfg tokenIn tokenOut publicClient cand =
     (resolveAddress cfg tokenIn \<noteq> snd cand \<and> resolveAddress cfg tokenOut \<noteq> snd cand
      \<and> getPairAddress d cfg tokenIn (fst cand) publicClient \<noteq> None
      \<and> getPairAddress d cfg (fst cand) tokenOut publicClient \<noteq> None)"

definition spec_getSwapRoute ::
  "dex \<Rightarrow> DexConfig \<Rightarrow> Token \<Rightarrow> Token \<Rightarrow> PublicClient option \<Rightarrow> string list" where
  "spec_getSwapRoute d cfg tokenIn tokenOut publicClient =
     (if getPairAddress d cfg tokenIn tokenOut publicClient \<noteq> None
      then [resolveAddress cfg tokenIn, resolveAddress cfg tokenOut]
      else (case find (usableBridge d cfg tokenIn tokenOut publicClient) (bridgeCandidates d cfg) of
              Some cand \<Rightarrow> [resolveAddress cfg tokenIn, snd cand, resolveAddress cfg tokenOut]
            | None \<Rightarrow> []))"

section \<open>Quotes\<close>

text \<open>
  The body of the \<open>try\<close> block of \<open>BaseDexService.getQuote\<close>. The route comes first;
  the check of the client stands after it. \<open>amounts[amounts.length - 1]\<close> of an empty
  answer is \<open>undefined\<close>, whose \<open>toString()\<close> throws.
\<close>

definition BaseDexService_getQuote_try ::
  "dex \<Rightarrow> DexConfig \<Rightarrow> Lib \<Rightarrow> Token \<Rightarrow> Token \<Rightarrow> string \<Rightarrow> PublicClient option
     \<Rightarrow> error + QuoteResult" where
  "BaseDexService_getQuote_try d cfg L tokenIn tokenOut amountIn publicClient =
     (let path = getSwapRoute d cfg tokenIn tokenOut publicClient
      in if length path = 0
         then Inl (PairNotFoundError (getName d) (symbol tokenIn) (symbol tokenOut))
         else (case parseUnits L amountIn (decimals tokenIn) of
                 None \<Rightarrow> Inl OtherError
               | Some amountInWei \<Rightarrow>
                   (case publicClient of
                      None \<Rightarrow> Inl (DexError ''NO_CLIENT'' (getName d))
                    | Some c \<Rightarrow>
                        (case read_getAmountsOut c (router cfg) amountInWei path of
                           None \<Rightarrow> Inl OtherError
                         | Some amounts \<Rightarrow>
                             if amounts = [] then Inl OtherError
                             else Inr \<lparr>amountOut =
                                         formatUnits L (last amounts) (decimals tokenOut),
                                       priceImpact =
                                         JNumber (calculatePriceImpact d cfg L tokenIn tokenOut
                                                    amountIn publicClient),
                                       route = path,
                                       gasEstimate = Some ''200000'',
                                       executionPrice = None\<rparr>))))"

text \<open>The \<open>catch\<close>: a DEX error is thrown again, anything else becomes \<open>QUOTE_FAILED\<close>.\<close>

definition BaseDexService_getQuote ::
  "dex \<Rightarrow> DexConfig \<Rightarrow> Lib \<Rightarrow> Token \<Rightarrow> Token \<Rightarrow> string \<Rightarrow> PublicClient option
     \<Rightarrow> error + QuoteResult" where
  "BaseDexService_getQuote d cfg L tokenIn tokenOut amountIn publicClient =
     (case BaseDexService_getQuote_try d cfg L tokenIn tokenOut amountIn publicClient of
        Inl e \<Rightarrow> if instanceof_DexError e then Inl e
                 else Inl (DexError ''QUOTE_FAILED'' (getName d))
      | Inr q \<Rightarrow> Inr q)"

text \<open>The private constants of the adapters and their tests for wrapping and unwrapping.\<close>

fun WRAPPED_ADDRESS :: "dex \<Rightarrow> string" where
  "WRAPPED_ADDRESS KalySwapService = ''0x069255299Bb729399f3CECaBdc73d15d3D10a2A3''"
| "WRAPPED_ADDRESS PancakeSwapService = ''0xbb4CdB9CBd36B01bD1cBaEBF2De08d9173bc095c''"
| "WRAPPED_ADDRESS UniswapV2Service = ''0x82aF49447D8a07e3bd95BD0d56f35241523fBab1''"

fun WRAPPED_SYMBOL :: "dex \<Rightarrow> string" where
  "WRAPPED_SYMBOL KalySwapService = ''WKLC''"
| "WRAPPED_SYMBOL PancakeSwapService = ''WBNB''"
| "WRAPPED_SYMBOL UniswapV2Service = ''WETH''"

definition isWrapOperation :: "dex \<Rightarrow> Token \<Rightarrow> Token \<Rightarrow> bool" where
  "isWrapOperation d tokenIn tokenOut =
     (let isFromNative = (isNative tokenIn = True);
          isToWrapped = (toUpperCase (symbol tokenOut) = WRAPPED_SYMBOL d
                         \<or> toLowerCase (address tokenOut) = toLowerCase (WRAPPED_ADDRESS d))
      in isFromNative \<and> isToWrapped)"

definition isUnwrapOperation :: "dex \<Rightarrow> Token \<Rightarrow> Token \<Rightarrow> bool" where
  "isUnwrapOperation d tokenIn tokenOut =
     (let isFromWrapped = (toUpperCase (symbol tokenIn) = WRAPPED_SYMBOL d
                           \<or> toLowerCase (address tokenIn) = toLowerCase (WRAPPED_ADDRESS d));
          isToNative = (isNative tokenOut = True)
      in isFromWrapped \<and> isToNative)"

text \<open>
  \<open>getQuote\<close> of the three adapters. The Camelot adapter (\<open>UniswapV2Service\<close>) writes the
  price impact of a wrap as the string \<open>'0'\<close> and adds an execution price.
\<close>

fun getQuote ::
  "dex \<Rightarrow> DexConfig \<Rightarrow> Lib \<Rightarrow> Token \<Rightarrow> Token \<Rightarrow> string \<Rightarrow> PublicClient option
     \<Rightarrow> error + QuoteResult" where
  "getQuote KalySwapService cfg L tokenIn tokenOut amountIn publicClient =
     (if isWrapOperation KalySwapService tokenIn tokenOut
         \<or> isUnwrapOperation KalySwapService tokenIn tokenOut
      then Inr \<lparr>amountOut = amountIn, priceImpact = JNumber (Fin 0),
                route = [address tokenIn, address tokenOut],
                gasEstimate = None, executionPrice = None\<rparr>
      else BaseDexService_getQuote KalySwapService cfg L tokenIn tokenOut amountIn publicClient)"
| "getQuote PancakeSwapService cfg L tokenIn tokenOut amountIn publicClient =
     (if isWrapOperation PancakeSwapService tokenIn tokenOut
         \<or> isUnwrapOperation PancakeSwapService tokenIn tokenOut
      then Inr \<lparr>amountOut = amountIn, priceImpact = JNumber (Fin 0),
                route = [address tokenIn, address tokenOut],
                gasEstimate = None, executionPrice = None\<rparr>
      else BaseDexService_getQuote PancakeSwapService cfg L tokenIn tokenOut amountIn
             publicClient)"
| "getQuote UniswapV2Service cfg L tokenIn tokenOut amountIn publicClient =
     (if isWrapOperation UniswapV2Service tokenIn tokenOut
         \<or> isUnwrapOperation UniswapV2Service tokenIn tokenOut
      then Inr \<lparr>amountOut = amountIn, priceImpact = JString ''0'',
                route = [address tokenIn, address tokenOut],
                gasEstimate = None, executionPrice = Some ''1.0''\<rparr>
      else BaseDexService_getQuote UniswapV2Service cfg L tokenIn tokenOut amountIn
             publicClient)"

section \<open>Swap execution\<close>










section \<open>Example data\<close>

text \<open>
  Tokens of the KalyChain list (\<open>config/dex/tokens/kalychain.ts\<close>): the native coin, its
  wrapped form, KSWAP and USDT; the native and the wrapped ether of Arbitrum; and a token
  that only bears the symbol of the wrapped coin.
\<close>

definition KLC :: Token where
  "KLC = \<lparr>chainId = 3888, address = ''0x0000000000000000000000000000000000000000'',
          decimals = 18, symbol = ''KLC'', name = ''KalyCoin'', logoURI = ''/tokens/klc.png'',
          isNative = True\<rparr>"

definition wKLC :: Token where
  "wKLC = \<lparr>chainId = 3888, address = ''0x069255299Bb729399f3CECaBdc73d15d3D10a2A3'',
           decimals = 18, symbol = ''wKLC'', name = ''Wrapped KalyCoin'',
           logoURI = ''/tokens/klc.png'', isNative = False\<rparr>"

definition KSWAP :: Token where
  "KSWAP = \<lparr>chainId = 3888, address = ''0xCC93b84cEed74Dc28c746b7697d6fA477ffFf65a'',
            decimals = 18, symbol = ''KSWAP'', name = ''KalySwap Token'',
            logoURI = ''/tokens/kswap.png'', isNative = False\<rparr>"

definition USDT :: Token where
  "USDT = \<lparr>chainId = 3888, address = ''0x2CA775C77B922A51FcF3097F52bFFdbc0250D99A'',
           decimals = 6, symbol = ''USDT'', name = ''Tether USD'',
           logoURI = ''/tokens/usdt.png'', isNative = False\<rparr>"

definition lookalike :: Token where
  "lookalike = \<lparr>chainId = 3888, address = ''0x1111111111111111111111111111111111111111'',
                decimals = 18, symbol = ''wklc'', name = ''Not the wrapped coin'',
                logoURI = [], isNative = False\<rparr>"

definition ETH :: Token where
  "ETH = \<lparr>chainId = 42161, address = ''0x0000000000000000000000000000000000000000'',
          decimals = 18, symbol = ''ETH'', name = ''Ether'', logoURI = [],
          isNative = True\<rparr>"

definition WETH :: Token where
  "WETH = \<lparr>chainId = 42161, address = ''0x82aF49447D8a07e3bd95BD0d56f35241523fBab1'',
           decimals = 18, symbol = ''WETH'', name = ''Wrapped Ether'', logoURI = [],
           isNative = False\<rparr>"

text \<open>A configuration of the KalySwap adapter; router and factory are placeholders.\<close>

definition example_router :: string where
  "example_router = ''0x00000000000000000000000000000000000000A1''"

definition example_factory :: string where
  "example_factory = ''0x00000000000000000000000000000000000000F1''"

definition example_config :: DexConfig where
  "example_config = \<lparr>tokens = [KLC, wKLC, KSWAP, USDT], router = example_router,
                      factory = example_factory,
                      wethAddress = ''0x069255299Bb729399f3CECaBdc73d15d3D10a2A3'',
                      subgraphUrl = []\<rparr>"

text \<open>
  A chain snapshot with two pools, wKLC/KSWAP and wKLC/USDT, and no pool of KSWAP and
  USDT. In both pools the wrapped coin is \<open>token0\<close>, as its address is the smaller one.
\<close>

definition pair_wKLC_KSWAP :: string where
  "pair_wKLC_KSWAP = ''0x00000000000000000000000000000000000000B1''"

definition pair_wKLC_USDT :: string where
  "pair_wKLC_USDT = ''0x00000000000000000000000000000000000000B2''"

definition example_getPair :: "string \<Rightarrow> string \<Rightarrow> string \<Rightarrow> string option" where
  "example_getPair f a b =
     (if f \<noteq> example_factory then None
      else if (a = address wKLC \<and> b = address KSWAP) \<or> (a = address KSWAP \<and> b = address wKLC)
      then Some pair_wKLC_KSWAP
      else if (a = address wKLC \<and> b = address USDT) \<or> (a = address USDT \<and> b = address wKLC)
      then Some pair_wKLC_USDT
      else Some ''0x0000000000000000000000000000000000000000'')"

definition example_client :: PublicClient where
  "example_client =
     \<lparr>read_getPair = example_getPair,
      read_getReserves = (\<lambda>p. if p = pair_wKLC_KSWAP
                                then Some (5000000000000000000, 3000000000000000000, 1700000000)
                                else if p = pair_wKLC_USDT
                                then Some (8000000000000000000, 2000000, 1700000000)
                                else None),
      read_token0 = (\<lambda>p. if p = pair_wKLC_KSWAP \<or> p = pair_wKLC_USDT
                           then Some (address wKLC) else None),
      read_totalSupply = (\<lambda>p. if p = pair_wKLC_KSWAP then Some 3872983346207416885
                                else if p = pair_wKLC_USDT then Some 4000000000000
                                else None),
      read_getAmountsOut = (\<lambda>r a p.
          if r = example_router \<and> a = 1000000000000000000
             \<and> p = [address KSWAP, address wKLC, address USDT]
          then Some [1000000000000000000, 1247185389041781336, 269043]
          else None)\<rparr>"

text \<open>
  The doubles nearest to \<open>10^-15\<close> and to \<open>10^308\<close>, the values \<open>parseFloat\<close> reads
  from their numerals.
\<close>

definition dust :: real where
  "dust = fl64 (1 / 10 ^ 15)"

definition huge :: real where
  "huge = fl64 (10 ^ 308)"

text \<open>
  The values the library functions take on the strings of the examples:
  \<open>parseUnits('1', 18)\<close>, \<open>parseUnits('0.5', 18)\<close>, \<open>formatUnits(3000000000000000000n, 18)\<close>,
  \<open>formatUnits(1000n, 18)\<close>, \<open>formatUnits(269043n, 6)\<close>, and \<open>parseFloat\<close> of \<open>'1'\<close>,
  \<open>'-1'\<close>, \<open>'2'\<close>, \<open>'3'\<close>, \<open>'100'\<close>, \<open>'200'\<close>, \<open>'0.000000000000001'\<close>, \<open>'1e308'\<close>
  and \<open>'2e308'\<close>, which lies beyond the largest double and reads as \<open>Infinity\<close>. No
  example reaches another argument.
\<close>

definition example_lib :: Lib where
  "example_lib =
     \<lparr>parseUnits = (\<lambda>s dec. if s = ''1'' \<and> dec = 18 then Some 1000000000000000000
                             else if s = ''0.5'' \<and> dec = 18 then Some 500000000000000000
                             else None),
      formatUnits = (\<lambda>v dec. if v = 3000000000000000000 \<and> dec = 18 then ''3''
                              else if v = 1000 \<and> dec = 18 then ''0.000000000000001''
                              else if v = 269043 \<and> dec = 6 then ''0.269043''
                              else []),
      parseFloat = (\<lambda>s. if s = ''1'' then Fin 1 else if s = ''-1'' then Fin (- 1)
                         else if s = ''2'' then Fin 2 else if s = ''3'' then Fin 3
                         else if s = ''100'' then Fin 100
                         else if s = ''200'' then Fin 200
                         else if s = ''0.000000000000001'' then Fin dust
                         else if s = ''1e308'' then Fin huge
                         else if s = ''2e308'' then PosInf
                         else NaN)\<rparr>"

text \<open>
  The same chain with the pool of wKLC and KSWAP all but drained: 1000 base units, that
  is \<open>10^-15\<close> tokens, on each side.
\<close>

definition drained_client :: PublicClient where
  "drained_client =
     example_client\<lparr>read_getReserves :=
        (\<lambda>p. if p = pair_wKLC_KSWAP then Some (1000, 1000, 1700000000) else None)\<rparr>"




section \<open>Rounding to doubles\<close>

lemma rne_of_int: "rne (of_int n) = n"
  by (simp add: rne_def)

lemma rne_lower: "\<lfloor>y\<rfloor> \<le> rne y"
  by (simp add: rne_def Let_def)

lemma rne_upper: "rne y \<le> \<lfloor>y\<rfloor> + 1"
  by (simp add: rne_def Let_def)

lemma rne_mono:
  assumes "x \<le> y"
  shows "rne x \<le> rne y"
proof (cases "\<lfloor>x\<rfloor> = \<lfloor>y\<rfloor>")
  case True
  with assms show ?thesis
    by (auto simp: rne_def Let_def)
next
  case False
  with assms have "\<lfloor>x\<rfloor> < \<lfloor>y\<rfloor>"
    using floor_mono [of x y] by linarith
  then have "\<lfloor>x\<rfloor> + 1 \<le> \<lfloor>y\<rfloor>"
    by simp
  with rne_upper [of x] rne_lower [of y] show ?thesis
    by linarith
qed

lemma rne_ge_int: "of_int n \<le> y \<Longrightarrow> n \<le> rne y"
  using rne_mono [of "of_int n" y] by (simp add: rne_of_int)

lemma rne_le_int: "y \<le> of_int n \<Longrightarrow> rne y \<le> n"
  using rne_mono [of y "of_int n"] by (simp add: rne_of_int)

lemma exponent_ge: "- 1022 \<le> exponent x"
  by (simp add: exponent_def)

lemma ulp_pos: "0 < ulp x"
  by (simp add: ulp_def)

lemma exponent_eq:
  assumes "2 powr of_int e \<le> \<bar>x\<bar>" and "\<bar>x\<bar> < 2 powr (of_int e + 1)" and "- 1022 \<le> e"
  shows "exponent x = e"
proof -
  have pos: "0 < \<bar>x\<bar>"
    by (rule less_le_trans [OF _ assms(1)]) simp
  have "\<lfloor>log 2 \<bar>x\<bar>\<rfloor> = e"
    using assms(1,2) pos by (simp add: floor_log_eq_powr_iff)
  with assms(3) show ?thesis
    by (simp add: exponent_def)
qed

lemma binade:
  assumes "x \<noteq> 0"
  shows "2 powr of_int \<lfloor>log 2 \<bar>x\<bar>\<rfloor> \<le> \<bar>x\<bar>"
    and "\<bar>x\<bar> < 2 powr (of_int \<lfloor>log 2 \<bar>x\<bar>\<rfloor> + 1)"
proof -
  from assms have pos: "0 < \<bar>x\<bar>" by simp
  from floor_log_eq_powr_iff [of "\<bar>x\<bar>" 2 "\<lfloor>log 2 \<bar>x\<bar>\<rfloor>"] pos
  have b: "2 powr of_int \<lfloor>log 2 \<bar>x\<bar>\<rfloor> \<le> \<bar>x\<bar>
           \<and> \<bar>x\<bar> < 2 powr of_int (\<lfloor>log 2 \<bar>x\<bar>\<rfloor> + 1)"
    by simp
  from b show "2 powr of_int \<lfloor>log 2 \<bar>x\<bar>\<rfloor> \<le> \<bar>x\<bar>"
    by (rule conjunct1)
  from b show "\<bar>x\<bar> < 2 powr (of_int \<lfloor>log 2 \<bar>x\<bar>\<rfloor> + 1)"
    by simp
qed

text \<open>A number lies below the end of its binade; a normal number lies above its start.\<close>

lemma below_binade_end:
  assumes "x \<noteq> 0"
  shows "\<bar>x\<bar> < 2 powr (of_int (exponent x) + 1)"
proof -
  have "(of_int \<lfloor>log 2 \<bar>x\<bar>\<rfloor> + 1 :: real) \<le> of_int (exponent x) + 1"
    by (simp add: exponent_def)
  then have "(2::real) powr (of_int \<lfloor>log 2 \<bar>x\<bar>\<rfloor> + 1) \<le> 2 powr (of_int (exponent x) + 1)"
    by (simp only: powr_le_cancel_iff) 
  with binade(2) [OF assms] show ?thesis
    by linarith
qed

lemma exponent_tiny:
  assumes "x \<noteq> 0" and "\<bar>x\<bar> < 2 powr (- 1021)"
  shows "exponent x = - 1022"
proof -
  from binade(1) [OF assms(1)] assms(2)
  have "(2::real) powr of_int \<lfloor>log 2 \<bar>x\<bar>\<rfloor> < 2 powr (- 1021)"
    by linarith
  then have "(of_int \<lfloor>log 2 \<bar>x\<bar>\<rfloor> :: real) < - 1021"
    by (simp only: powr_less_cancel_iff) 
  then have "\<lfloor>log 2 \<bar>x\<bar>\<rfloor> < - 1021"
    by linarith
  then show ?thesis
    by (simp add: exponent_def)
qed


lemma fl64_zero: "fl64 0 = 0"
  by (simp add: fl64_def)

lemma ulp_scale: "2 ^ 53 * ulp x = 2 powr (of_int (exponent x) + 1)"
  "2 ^ 52 * ulp x = 2 powr of_int (exponent x)"
  by (simp_all add: ulp_def powr_diff powr_add)

lemma fl64_nonneg:
  assumes "0 \<le> x"
  shows "0 \<le> fl64 x"
proof -
  from assms ulp_pos [of x] have "of_int 0 \<le> x / ulp x"
    by simp
  then have "0 \<le> rne (x / ulp x)"
    by (rule rne_ge_int)
  with ulp_pos [of x] show ?thesis
    by (simp add: fl64_def)
qed

lemma fl64_upper:
  assumes "0 < x"
  shows "fl64 x \<le> 2 powr (of_int (exponent x) + 1)"
proof -
  from assms have nz: "x \<noteq> 0" and ax: "\<bar>x\<bar> = x" by simp_all
  from below_binade_end [OF nz] have "x < 2 ^ 53 * ulp x"
    unfolding ulp_scale ax .
  with ulp_pos [of x] have "x / ulp x \<le> of_int (2 ^ 53)"
    by (simp add: divide_le_eq)
  then have "rne (x / ulp x) \<le> 2 ^ 53"
    by (rule rne_le_int)
  then have "of_int (rne (x / ulp x)) \<le> (2 ^ 53 :: real)"
    by (metis of_int_le_iff of_int_numeral of_int_power)
  with ulp_pos [of x] have "of_int (rne (x / ulp x)) * ulp x \<le> 2 ^ 53 * ulp x"
    by simp
  then have "of_int (rne (x / ulp x)) * ulp x \<le> 2 powr (of_int (exponent x) + 1)"
    unfolding ulp_scale .
  with nz show ?thesis
    by (simp add: fl64_def)
qed

lemma fl64_lower:
  assumes "0 < x" and "2 powr of_int (exponent x) \<le> x"
  shows "2 powr of_int (exponent x) \<le> fl64 x"
proof -
  from assms have nz: "x \<noteq> 0" by simp
  from assms(2) have "2 ^ 52 * ulp x \<le> x"
    unfolding ulp_scale .
  with ulp_pos [of x] have "of_int (2 ^ 52) \<le> x / ulp x"
    by (simp add: le_divide_eq)
  then have "2 ^ 52 \<le> rne (x / ulp x)"
    by (rule rne_ge_int)
  then have "(2 ^ 52 :: real) \<le> of_int (rne (x / ulp x))"
    by (metis of_int_le_iff of_int_numeral of_int_power)
  with ulp_pos [of x] have "2 ^ 52 * ulp x \<le> of_int (rne (x / ulp x)) * ulp x"
    by simp
  then have "2 powr of_int (exponent x) \<le> of_int (rne (x / ulp x)) * ulp x"
    unfolding ulp_scale .
  with nz show ?thesis
    by (simp add: fl64_def)
qed

lemma exponent_mono:
  assumes "0 < x" and "x \<le> y"
  shows "exponent x \<le> exponent y"
proof -
  from assms have "log 2 \<bar>x\<bar> \<le> log 2 \<bar>y\<bar>" by simp
  then have "\<lfloor>log 2 \<bar>x\<bar>\<rfloor> \<le> \<lfloor>log 2 \<bar>y\<bar>\<rfloor>" by (rule floor_mono)
  then show ?thesis
    by (simp add: exponent_def)
qed

text \<open>Rounding is monotone.\<close>

lemma fl64_mono_nonneg:
  assumes "0 \<le> x" and "x \<le> y"
  shows "fl64 x \<le> fl64 y"
proof (cases "x = 0")
  case True
  with assms show ?thesis
    by (simp add: fl64_zero fl64_nonneg)
next
  case False
  with assms have px: "0 < x" and py: "0 < y" by simp_all
  from exponent_mono [OF px assms(2)] have le: "exponent x \<le> exponent y" .
  show ?thesis
  proof (cases "exponent x = exponent y")
    case True
    then have u: "ulp x = ulp y"
      by (simp add: ulp_def)
    have "x / ulp y \<le> y / ulp y"
      using assms(2) ulp_pos [of y] by (simp add: divide_right_mono)
    then have "rne (x / ulp y) \<le> rne (y / ulp y)"
      by (rule rne_mono)
    then have "(of_int (rne (x / ulp y)) :: real) \<le> of_int (rne (y / ulp y))"
      by simp
    with ulp_pos [of y] have "of_int (rne (x / ulp y)) * ulp y \<le> of_int (rne (y / ulp y)) * ulp y"
      by simp
    with px py u show ?thesis
      by (simp add: fl64_def)
  next
    case False
    with le have lt: "exponent x + 1 \<le> exponent y" by simp
    with exponent_ge [of x] have "- 1022 < exponent y" by simp
    then have ey: "exponent y = \<lfloor>log 2 \<bar>y\<bar>\<rfloor>"
      by (simp add: exponent_def max_def split: if_splits)
    from py have nz: "y \<noteq> 0" and ay: "\<bar>y\<bar> = y" by simp_all
    from binade(1) [OF nz] ey ay have "2 powr of_int (exponent y) \<le> y"
      by simp
    from fl64_lower [OF py this] have low: "2 powr of_int (exponent y) \<le> fl64 y" .
    from lt have "(of_int (exponent x) + 1 :: real) \<le> of_int (exponent y)"
      by (metis of_int_1 of_int_add of_int_le_iff)
    then have "(2::real) powr (of_int (exponent x) + 1) \<le> 2 powr of_int (exponent y)"
      by simp
    with fl64_upper [OF px] low show ?thesis
      by linarith
  qed
qed

lemma fl64_eval:
  assumes "2 powr of_int e \<le> \<bar>x\<bar>" and "\<bar>x\<bar> < 2 powr (of_int e + 1)" and "- 1022 \<le> e"
  shows "fl64 x = of_int (rne (x / 2 powr (of_int e - 52))) * 2 powr (of_int e - 52)"
proof -
  have "0 < \<bar>x\<bar>"
    by (rule less_le_trans [OF _ assms(1)]) simp
  then have "x \<noteq> 0" by simp
  then show ?thesis
    by (simp add: fl64_def ulp_def exponent_eq [OF assms])
qed

lemma fl64_exact:
  assumes "2 powr of_int e \<le> \<bar>x\<bar>" and "\<bar>x\<bar> < 2 powr (of_int e + 1)" and "- 1022 \<le> e"
    and "x / 2 powr (of_int e - 52) = of_int m"
  shows "fl64 x = x"
proof -
  have "fl64 x = of_int m * 2 powr (of_int e - 52)"
    unfolding fl64_eval [OF assms(1-3)] assms(4) rne_of_int ..
  also have "\<dots> = x"
    unfolding assms(4) [symmetric] by simp
  finally show ?thesis .
qed








lemma MAX_VALUE_ge: "2 ^ 53 \<le> MAX_VALUE"
  by (simp add: MAX_VALUE_def)

lemma MAX_VALUE_double: "is_double MAX_VALUE"
proof -
  have "fl64 MAX_VALUE = MAX_VALUE"
    by (rule fl64_exact [where e = 1023 and m = "2 ^ 53 - 1"])
      (simp_all add: MAX_VALUE_def powr_neg_numeral)
  then show ?thesis
    by (simp add: is_double_def MAX_VALUE_def)
qed

lemma round64_Fin:
  assumes "0 \<le> x" and "x \<le> MAX_VALUE"
  shows "round64 x = Fin (fl64 x)"
proof -
  from fl64_mono_nonneg [OF assms] MAX_VALUE_double have "fl64 x \<le> MAX_VALUE"
    by (simp add: is_double_def)
  moreover from fl64_nonneg [OF assms(1)] MAX_VALUE_ge have "\<not> fl64 x < - MAX_VALUE"
    by simp
  ultimately show ?thesis
    by (simp add: round64_def)
qed

lemma round64_eq:
  assumes "fl64 x = y" and "\<bar>y\<bar> \<le> 2 ^ 53"
  shows "round64 x = Fin y"
  using assms MAX_VALUE_ge by (auto simp: round64_def)

lemma is_double_small:
  assumes "fl64 x = x" and "\<bar>x\<bar> \<le> 2 ^ 53"
  shows "is_double x"
  using assms MAX_VALUE_ge by (simp add: is_double_def)

lemma fl64_1: "fl64 1 = 1"
  by (rule fl64_exact [where e = 0 and m = "2 ^ 52"]) (simp_all add: powr_neg_numeral)

lemma fl64_100: "fl64 100 = 100"
  by (rule fl64_exact [where e = 6 and m = "100 * 2 ^ 46"]) (simp_all add: powr_neg_numeral)

lemma fl64_25: "fl64 25 = 25"
  by (rule fl64_exact [where e = 4 and m = "25 * 2 ^ 48"]) (simp_all add: powr_neg_numeral)

lemma fl64_quarter: "fl64 (1 / 4) = 1 / 4"
  by (rule fl64_exact [where e = "- 2" and m = "2 ^ 52"]) (simp_all add: powr_neg_numeral)

lemma fl64_neg_half: "fl64 (- (1 / 2)) = - (1 / 2)"
  by (rule fl64_exact [where e = "- 1" and m = "- (2 ^ 52)"]) (simp_all add: powr_neg_numeral)

lemma fl64_2: "fl64 2 = 2"
  by (rule fl64_exact [where e = 1 and m = "2 ^ 52"]) (simp_all add: powr_neg_numeral)

lemma fl64_3: "fl64 3 = 3"
  by (rule fl64_exact [where e = 1 and m = "3 * 2 ^ 51"]) (simp_all add: powr_neg_numeral)

lemma fl64_4: "fl64 4 = 4"
  by (rule fl64_exact [where e = 2 and m = "2 ^ 52"]) (simp_all add: powr_neg_numeral)

lemma fl64_5: "fl64 5 = 5"
  by (rule fl64_exact [where e = 2 and m = "5 * 2 ^ 50"]) (simp_all add: powr_neg_numeral)

lemma fl64_200: "fl64 200 = 200"
  by (rule fl64_exact [where e = 7 and m = "200 * 2 ^ 45"]) (simp_all add: powr_neg_numeral)

lemma fl64_neg_50: "fl64 (- 50) = - 50"
  by (rule fl64_exact [where e = 5 and m = "- (50 * 2 ^ 47)"]) (simp_all add: powr_neg_numeral)

lemma dust_value: "dust = 5070602400912918 / 2 ^ 102"
  unfolding dust_def
  by (subst fl64_eval [where e = "- 50"]) (simp_all add: powr_neg_numeral rne_def)









lemma round64_values:
  "round64 0 = Fin 0" "round64 1 = Fin 1" "round64 2 = Fin 2" "round64 4 = Fin 4"
  "round64 5 = Fin 5" "round64 25 = Fin 25" "round64 100 = Fin 100"
  "round64 (1 / 4) = Fin (1 / 4)" "round64 (- (1 / 2)) = Fin (- (1 / 2))"
  "round64 (- 50) = Fin (- 50)"
  by (rule round64_eq, rule fl64_zero fl64_1 fl64_2 fl64_4 fl64_5 fl64_25 fl64_100
      fl64_quarter fl64_neg_half fl64_neg_50, simp)+

lemma double_values:
  "is_double 0" "is_double 1" "is_double 2" "is_double 3" "is_double 100" "is_double 200"
  by (rule is_double_small, rule fl64_zero fl64_1 fl64_2 fl64_3 fl64_100 fl64_200, simp)+

lemma fl64_double_le:
  assumes "is_double x" and "0 \<le> x" and "x \<le> y"
  shows "x \<le> fl64 y"
  using fl64_mono_nonneg [OF assms(2,3)] assms(1) by (simp add: is_double_def)

lemma rounded_sum_bounds:
  assumes "is_double a" and "is_double r" and "0 \<le> a" and "0 \<le> r" and "0 < a + r"
  shows "a \<le> fl64 (r + a)" and "r \<le> fl64 (r + a)" and "0 < fl64 (r + a)"
proof -
  from assms(3,4) show a: "a \<le> fl64 (r + a)"
    by (intro fl64_double_le [OF assms(1)]) simp_all
  from assms(3,4) show r: "r \<le> fl64 (r + a)"
    by (intro fl64_double_le [OF assms(2)]) simp_all
  from a r assms(5) show "0 < fl64 (r + a)"
    by linarith
qed

lemma rounded_quotient:
  assumes "0 \<le> a" and "a \<le> s" and "0 < s"
  shows "round64 (a / s) = Fin (fl64 (a / s))" and "0 \<le> fl64 (a / s)" and "fl64 (a / s) \<le> 1"
proof -
  from assms have q: "0 \<le> a / s" "a / s \<le> 1"
    by simp_all
  from q(2) MAX_VALUE_ge have "a / s \<le> MAX_VALUE"
    by simp
  with q(1) show "round64 (a / s) = Fin (fl64 (a / s))"
    by (rule round64_Fin)
  from q(1) show "0 \<le> fl64 (a / s)"
    by (rule fl64_nonneg)
  from fl64_mono_nonneg [OF q] show "fl64 (a / s) \<le> 1"
    by (simp add: fl64_1)
qed

lemma rounded_percent:
  assumes "0 \<le> q" and "q \<le> 1"
  shows "round64 (q * 100) = Fin (fl64 (q * 100))" and "0 \<le> fl64 (q * 100)"
    and "fl64 (q * 100) \<le> 100"
proof -
  from assms have p: "0 \<le> q * 100" "q * 100 \<le> 100"
    by simp_all
  from p(2) MAX_VALUE_ge have "q * 100 \<le> MAX_VALUE"
    by simp
  with p(1) show "round64 (q * 100) = Fin (fl64 (q * 100))"
    by (rule round64_Fin)
  from p(1) show "0 \<le> fl64 (q * 100)"
    by (rule fl64_nonneg)
  from fl64_mono_nonneg [OF p] show "fl64 (q * 100) \<le> 100"
    by (simp add: fl64_100)
qed

text \<open>
  The formula on two doubles that are not negative and not both zero. When the sum
  overflows, the quotient and the result are 0.
\<close>

lemma rounded_impact:
  assumes "is_double a" and "is_double r" and "0 \<le> a" and "0 \<le> r" and "0 < a + r"
  shows "Math_min (num_times (num_divide (Fin a) (num_plus (Fin r) (Fin a))) (Fin 100)) (Fin 100)
           = (if fl64 (r + a) \<le> MAX_VALUE
              then Fin (min (fl64 (fl64 (a / fl64 (r + a)) * 100)) 100)
              else Fin 0)"
    and "in_percent_range
           (Math_min (num_times (num_divide (Fin a) (num_plus (Fin r) (Fin a))) (Fin 100))
              (Fin 100))"
proof -
  let ?s = "fl64 (r + a)"
  let ?I = "Math_min (num_times (num_divide (Fin a) (num_plus (Fin r) (Fin a))) (Fin 100))
              (Fin 100)"
  note s = rounded_sum_bounds [OF assms]
  from s(3) have nz: "?s \<noteq> 0"
    by simp
  note q = rounded_quotient [OF assms(3) s(1,3)]
  note p = rounded_percent [OF q(2,3)]
  show v: "?I = (if ?s \<le> MAX_VALUE then Fin (min (fl64 (fl64 (a / ?s) * 100)) 100) else Fin 0)"
  proof (cases "?s \<le> MAX_VALUE")
    case True
    with s(3) MAX_VALUE_ge have sum: "round64 (r + a) = Fin ?s"
      by (simp add: round64_def)
    from True show ?thesis
      by (simp add: sum nz q(1) p(1))
  next
    case False
    then have sum: "round64 (r + a) = PosInf"
      by (simp add: round64_def)
    from False show ?thesis
      by (simp add: sum round64_values)
  qed
  from p(2,3) show "in_percent_range ?I"
    unfolding v by simp
qed

lemma sum_within_doubles:
  assumes "0 \<le> y" and "y \<le> MAX_VALUE"
  shows "fl64 y \<le> MAX_VALUE"
  using fl64_mono_nonneg [OF assms] MAX_VALUE_double by (simp add: is_double_def)



text \<open>The double next to \<open>10^308\<close> absorbs a reserve of 3.\<close>

lemma huge_value: "huge = 5010420900022432 * 2 ^ 971"
  unfolding huge_def
  by (subst fl64_eval [where e = 1023]) (simp_all add: powr_neg_numeral rne_def)

lemma huge_double: "is_double huge"
proof -
  have "fl64 huge = huge"
    unfolding huge_value
    by (rule fl64_exact [where e = 1023 and m = 5010420900022432])
      (simp_all add: powr_neg_numeral)
  moreover have "\<bar>huge\<bar> \<le> MAX_VALUE"
    by (simp add: huge_value MAX_VALUE_def)
  ultimately show ?thesis
    by (simp add: is_double_def)
qed

lemma fl64_3_huge: "fl64 (3 + huge) = huge"
  unfolding huge_value
  by (subst fl64_eval [where e = 1023]) (simp_all add: powr_neg_numeral rne_def)

lemma huge_bounds: "0 < huge" "huge \<le> MAX_VALUE"
  by (simp_all add: huge_value MAX_VALUE_def)

text \<open>
  The ends of the range. Half the smallest positive double is a tie and rounds to zero;
  three quarters of it round up to it. The midpoint of the largest double and \<open>2^1024\<close>
  rounds to an infinity, and every number below that midpoint to a finite double.
\<close>

lemma fl64_eval_subnormal:
  assumes "x \<noteq> 0" and "\<bar>x\<bar> < 2 powr (- 1021)"
  shows "fl64 x = of_int (rne (x / 2 powr (- 1074))) * 2 powr (- 1074)"
  using assms(1) exponent_tiny [OF assms] by (simp add: fl64_def ulp_def)

lemma round64_underflow: "round64 (1 / 2 ^ 1075) = Fin 0"
proof -
  have "fl64 (1 / 2 ^ 1075) = 0"
    by (subst fl64_eval_subnormal) (simp_all add: powr_neg_numeral rne_def)
  then show ?thesis
    by (simp add: round64_def MAX_VALUE_def)
qed

lemma fl64_smallest: "fl64 (3 / 2 ^ 1076) = 1 / 2 ^ 1074"
  by (subst fl64_eval_subnormal) (simp_all add: powr_neg_numeral rne_def)

lemma round64_overflow: "round64 (2 ^ 1024 - 2 ^ 970) = PosInf"
proof -
  have "fl64 (2 ^ 1024 - 2 ^ 970) = 2 ^ 1024"
    by (subst fl64_eval [where e = 1023]) (simp_all add: powr_neg_numeral rne_def)
  then show ?thesis
    by (simp add: round64_def MAX_VALUE_def)
qed

lemma round64_largest: "round64 (2 ^ 1024 - 2 ^ 970 - 1) = Fin MAX_VALUE"
proof -
  have "fl64 (2 ^ 1024 - 2 ^ 970 - 1) = MAX_VALUE"
    unfolding MAX_VALUE_def
    by (subst fl64_eval [where e = 1023]) (simp_all add: powr_neg_numeral rne_def)
  then show ?thesis
    by (simp add: round64_def MAX_VALUE_def)
qed

lemmas fl64_values = fl64_zero fl64_1 fl64_2 fl64_4 fl64_5 fl64_25 fl64_100 fl64_quarter
  fl64_neg_half fl64_neg_50

section \<open>Facts about the example data\<close>

lemmas example_defs = KLC_def wKLC_def KSWAP_def USDT_def example_config_def
  example_client_def example_getPair_def example_factory_def example_router_def
  pair_wKLC_KSWAP_def pair_wKLC_USDT_def

lemmas pair_defs = getPairAddress_def getPairAddress_try_def getPairInfo_def
  getPairInfo_try_def resolveAddress_def getWethAddress_def ZERO_ADDRESS_def

lemmas case_defs = toLowerCase_def toUpperCase_def toLowerCase_char_def toUpperCase_char_def
  upper_letters_def lower_letters_def

lemmas route_defs = KalySwapService_getSwapRoute_def PancakeSwapService_getSwapRoute_def
  UniswapV2Service_getSwapRoute_def routeViaWrapped_def routeViaSymbol_def canSwapDirectly_def

lemma example_candidates:
  "bridgeCandidates KalySwapService example_config = [(wKLC, address wKLC), (USDT, address USDT)]"
  by (simp add: bridgeCandidates_def example_defs case_defs)

lemma example_route_KSWAP_USDT:
  "getSwapRoute KalySwapService example_config KSWAP USDT (Some example_client)
     = [address KSWAP, address wKLC, address USDT]"
  by (simp add: route_defs pair_defs example_defs case_defs)

lemma example_route_KLC_KSWAP:
  "getSwapRoute KalySwapService example_config KLC KSWAP (Some example_client)
     = [address wKLC, address KSWAP]"
  by (simp add: route_defs pair_defs example_defs case_defs)

lemma example_route_none:
  "getSwapRoute KalySwapService example_config KSWAP lookalike (Some example_client) = []"
  by (simp add: route_defs pair_defs example_defs case_defs lookalike_def)

section \<open>Null results of the pair resolver\<close>

text \<open>
  Claim C7. \<open>getPairAddress\<close> resolves a native token to the wrapped-native address and
  asks the factory for the pair. Without a client the result is \<open>null\<close>; with a client it
  is \<open>null\<close> exactly when the call fails or the factory answers the all-zero address, and
  otherwise it is the factory's answer: no failure leaves the function as an exception.
  Whenever \<open>getPairAddress\<close> gives \<open>null\<close>, \<open>getPairInfo\<close> gives \<open>null\<close> too.
\<close>

theorem getPairAddress_null_cases:
  "getPairAddress d cfg tokenA tokenB None = None
   \<and> ((getPairAddress d cfg tokenA tokenB (Some c) = None) =
        (read_getPair c (factory cfg)
           (if isNative tokenA then wethAddress cfg else address tokenA)
           (if isNative tokenB then wethAddress cfg else address tokenB)
         \<in> {None, Some ''0x0000000000000000000000000000000000000000''}))
   \<and> (\<forall>p. getPairAddress d cfg tokenA tokenB (Some c) = Some p \<longrightarrow>
          read_getPair c (factory cfg)
           (if isNative tokenA then wethAddress cfg else address tokenA)
           (if isNative tokenB then wethAddress cfg else address tokenB) = Some p)
   \<and> (getPairAddress d cfg tokenA tokenB publicClient = None \<longrightarrow>
          getPairInfo d cfg tokenA tokenB publicClient = None)"
  by (auto simp: pair_defs split: option.splits if_splits)

theorem getPairAddress_null_cases_witness:
  "getPairAddress KalySwapService example_config KLC KSWAP None = None
   \<and> getPairAddress KalySwapService example_config KLC KSWAP (Some example_client)
       = Some pair_wKLC_KSWAP
   \<and> read_getPair example_client (factory example_config) (wethAddress example_config)
        (address KSWAP) = Some pair_wKLC_KSWAP
   \<and> getPairAddress KalySwapService example_config KSWAP USDT (Some example_client) = None
   \<and> read_getPair example_client (factory example_config) (address KSWAP) (address USDT)
       = Some ''0x0000000000000000000000000000000000000000''
   \<and> getPairInfo KalySwapService example_config KSWAP USDT (Some example_client) = None"
  using getPairAddress_null_cases [of KalySwapService example_config KLC KSWAP example_client
      "Some example_client"]
    getPairAddress_null_cases [of KalySwapService example_config KSWAP USDT example_client
      "Some example_client"]
  by (simp add: example_defs pair_defs)

section \<open>The route planner and its specification\<close>

text \<open>
  Claim C2. \<open>getSwapRoute\<close> of each adapter is the planner of the specification: with
  both endpoints resolved to their contract addresses, the direct pair gives the
  two-element route; otherwise the first usable bridge of the ordered candidates gives a
  three-element route, the wrapped native token first (used only when neither resolved
  endpoint is the wrapped address), then USDT on KalyChain, USDC then USDT on Arbitrum,
  USDT then BUSD on BSC; with no usable candidate the route is empty.
\<close>

theorem getSwapRoute_refines:
  "getSwapRoute d cfg tokenIn tokenOut publicClient
     = spec_getSwapRoute d cfg tokenIn tokenOut publicClient"
proof (cases d)
  case KalySwapService
  then show ?thesis
    by (auto simp add: route_defs spec_getSwapRoute_def bridgeCandidates_def usableBridge_def
        Let_def getWethAddress_def split: option.splits)
next
  case PancakeSwapService
  then show ?thesis
    by (auto simp add: route_defs spec_getSwapRoute_def bridgeCandidates_def usableBridge_def
        Let_def getWethAddress_def split: option.splits)
next
  case UniswapV2Service
  then show ?thesis
    by (auto simp add: route_defs spec_getSwapRoute_def bridgeCandidates_def usableBridge_def
        Let_def getWethAddress_def split: option.splits)
qed

theorem getSwapRoute_refines_witness:
  "bridgeCandidates KalySwapService example_config
     = [(wKLC, address wKLC), (USDT, address USDT)]
   \<and> spec_getSwapRoute KalySwapService example_config KLC KSWAP (Some example_client)
     = [address wKLC, address KSWAP]
   \<and> spec_getSwapRoute KalySwapService example_config KSWAP USDT (Some example_client)
     = [address KSWAP, address wKLC, address USDT]
   \<and> spec_getSwapRoute KalySwapService example_config KSWAP lookalike (Some example_client)
     = []"
  by (simp only: getSwapRoute_refines [symmetric] example_candidates example_route_KSWAP_USDT
      example_route_KLC_KSWAP example_route_none simp_thms)

section \<open>Wrapping and unwrapping\<close>

lemma getQuote_wrap:
  "isWrapOperation d tokenIn tokenOut \<or> isUnwrapOperation d tokenIn tokenOut \<Longrightarrow>
   getQuote d cfg L tokenIn tokenOut amountIn publicClient =
     Inr \<lparr>amountOut = amountIn,
          priceImpact = (if d = UniswapV2Service then JString ''0'' else JNumber (Fin 0)),
          route = [address tokenIn, address tokenOut],
          gasEstimate = None,
          executionPrice = (if d = UniswapV2Service then Some ''1.0'' else None)\<rparr>"
  by (cases d) auto

text \<open>
  Claim C1. When \<open>tokenIn\<close> is native and \<open>tokenOut\<close> has the address of the adapter's
  wrapped-native contract, or the other way round, \<open>getQuote\<close> returns \<open>amountIn\<close> itself
  as \<open>amountOut\<close> and the route \<open>[tokenIn.address, tokenOut.address]\<close>, for every amount
  string, configuration and client (also a missing one): neither the route planner nor
  the router is consulted. The price impact is the number 0 on KalySwap and PancakeSwap.
  On Camelot it is the string \<open>'0'\<close>, not the number 0 that the specification and the
  two other adapters give.
\<close>

theorem wrap_unwrap_quote_exact:
  assumes "(isNative tokenIn \<and> toLowerCase (address tokenOut) = toLowerCase (WRAPPED_ADDRESS d))
           \<or> (toLowerCase (address tokenIn) = toLowerCase (WRAPPED_ADDRESS d) \<and> isNative tokenOut)"
  shows "getQuote d cfg L tokenIn tokenOut amountIn publicClient =
           Inr \<lparr>amountOut = amountIn,
                priceImpact = (if d = UniswapV2Service then JString ''0'' else JNumber (Fin 0)),
                route = [address tokenIn, address tokenOut],
                gasEstimate = None,
                executionPrice = (if d = UniswapV2Service then Some ''1.0'' else None)\<rparr>
         \<and> (case getQuote d cfg L tokenIn tokenOut amountIn publicClient of
               Inl e \<Rightarrow> False
             | Inr q \<Rightarrow> priceImpact q = JNumber (Fin 0))
             = (d \<noteq> UniswapV2Service)"
proof -
  from assms have "isWrapOperation d tokenIn tokenOut \<or> isUnwrapOperation d tokenIn tokenOut"
    by (auto simp: isWrapOperation_def isUnwrapOperation_def)
  then show ?thesis
    by (simp add: getQuote_wrap)
qed

theorem wrap_unwrap_quote_exact_witness:
  "isNative ETH
   \<and> toLowerCase (address WETH) = toLowerCase (WRAPPED_ADDRESS UniswapV2Service)
   \<and> getQuote UniswapV2Service example_config example_lib ETH WETH ''1.5'' None =
     Inr \<lparr>amountOut = ''1.5'', priceImpact = JString ''0'',
          route = [''0x0000000000000000000000000000000000000000'',
                   ''0x82aF49447D8a07e3bd95BD0d56f35241523fBab1''],
          gasEstimate = None, executionPrice = Some ''1.0''\<rparr>
   \<and> JString ''0'' \<noteq> JNumber (Fin 0)
   \<and> getQuote KalySwapService example_config example_lib wKLC KLC ''1.5'' None =
     Inr \<lparr>amountOut = ''1.5'', priceImpact = JNumber (Fin 0),
          route = [''0x069255299Bb729399f3CECaBdc73d15d3D10a2A3'',
                   ''0x0000000000000000000000000000000000000000''],
          gasEstimate = None, executionPrice = None\<rparr>"
  using wrap_unwrap_quote_exact [of ETH WETH UniswapV2Service example_config example_lib
      "''1.5''" None]
    wrap_unwrap_quote_exact [of wKLC KLC KalySwapService example_config example_lib
      "''1.5''" None]
  by (simp add: ETH_def WETH_def KLC_def wKLC_def case_defs)



section \<open>Errors of a quote\<close>

lemma canSwapDirectly_no_client: "canSwapDirectly d cfg tokenA tokenB None = False"
  by (simp add: canSwapDirectly_def getPairAddress_def getPairAddress_try_def)

lemma routeViaWrapped_no_client: "routeViaWrapped d cfg tokenIn tokenOut None = None"
  by (simp add: routeViaWrapped_def canSwapDirectly_no_client Let_def split: option.splits)

lemma routeViaSymbol_no_client: "routeViaSymbol d cfg s tokenIn tokenOut None = None"
  by (simp add: routeViaSymbol_def canSwapDirectly_no_client Let_def split: option.splits)

lemma getSwapRoute_no_client: "getSwapRoute d cfg tokenIn tokenOut None = []"
  by (cases d)
    (simp_all add: KalySwapService_getSwapRoute_def PancakeSwapService_getSwapRoute_def
      UniswapV2Service_getSwapRoute_def canSwapDirectly_no_client routeViaWrapped_no_client
      routeViaSymbol_no_client)

text \<open>An empty route makes the quote fail with \<open>PairNotFoundError\<close>, thrown again as it is.\<close>

lemma getQuote_empty_route:
  "getSwapRoute d cfg tokenIn tokenOut publicClient = [] \<Longrightarrow>
   BaseDexService_getQuote d cfg L tokenIn tokenOut amountIn publicClient
     = Inl (PairNotFoundError (getName d) (symbol tokenIn) (symbol tokenOut))"
  by (simp add: BaseDexService_getQuote_def BaseDexService_getQuote_try_def)

text \<open>A failing router simulation, an amount that does not parse: \<open>QUOTE_FAILED\<close>.\<close>

lemma getQuote_router_failure:
  "getSwapRoute d cfg tokenIn tokenOut (Some c) = path \<Longrightarrow> path \<noteq> [] \<Longrightarrow>
   parseUnits L amountIn (decimals tokenIn) = Some amountInWei \<Longrightarrow>
   read_getAmountsOut c (router cfg) amountInWei path = None \<Longrightarrow>
   BaseDexService_getQuote d cfg L tokenIn tokenOut amountIn (Some c)
     = Inl (DexError ''QUOTE_FAILED'' (getName d))"
  by (simp add: BaseDexService_getQuote_def BaseDexService_getQuote_try_def)

lemma getQuote_parse_failure:
  "getSwapRoute d cfg tokenIn tokenOut publicClient \<noteq> [] \<Longrightarrow>
   parseUnits L amountIn (decimals tokenIn) = None \<Longrightarrow>
   BaseDexService_getQuote d cfg L tokenIn tokenOut amountIn publicClient
     = Inl (DexError ''QUOTE_FAILED'' (getName d))"
  by (simp add: BaseDexService_getQuote_def BaseDexService_getQuote_try_def)

text \<open>The \<open>NO_CLIENT\<close> error of \<open>getQuote\<close> is never the outcome.\<close>

lemma getQuote_never_NO_CLIENT:
  "BaseDexService_getQuote d cfg L tokenIn tokenOut amountIn publicClient
     \<noteq> Inl (DexError ''NO_CLIENT'' n)"
proof (cases publicClient)
  case None
  then show ?thesis
    by (simp add: getQuote_empty_route [OF getSwapRoute_no_client])
next
  case (Some c)
  then show ?thesis
    by (auto simp: BaseDexService_getQuote_def BaseDexService_getQuote_try_def Let_def
        split: option.splits if_splits)
qed

text \<open>
  Claim C3, at the input where the code departs from it. For a pair that is neither a
  wrap nor an unwrap, an empty route makes \<open>getQuote\<close> fail with PairNotFound
  (\<open>getQuote_empty_route\<close>) and a failing router simulation gives \<open>QUOTE_FAILED\<close>
  (\<open>getQuote_router_failure\<close>), as the claim says. A missing client does not give
  NoClient or QuoteFailed: \<open>getPairAddress\<close> swallows its own \<open>NO_CLIENT\<close> error, the
  route comes out empty, and \<open>getQuote\<close> fails with PairNotFound before it reaches its
  check of the client.
\<close>

theorem getQuote_without_client:
  "\<not> isWrapOperation d tokenIn tokenOut \<Longrightarrow> \<not> isUnwrapOperation d tokenIn tokenOut \<Longrightarrow>
   getQuote d cfg L tokenIn tokenOut amountIn None
     = Inl (PairNotFoundError (getName d) (symbol tokenIn) (symbol tokenOut))"
  by (cases d) (simp_all add: getQuote_empty_route [OF getSwapRoute_no_client])

theorem getQuote_without_client_witness:
  "\<not> isWrapOperation KalySwapService KSWAP USDT
   \<and> \<not> isUnwrapOperation KalySwapService KSWAP USDT
   \<and> getQuote KalySwapService example_config example_lib KSWAP USDT ''1'' None
       = Inl (PairNotFoundError ''KalySwap'' ''KSWAP'' ''USDT'')"
  using getQuote_without_client [of KalySwapService KSWAP USDT example_config example_lib
      "''1''"]
  by (simp add: isWrapOperation_def isUnwrapOperation_def KSWAP_def USDT_def case_defs)

section \<open>Pair info\<close>

text \<open>The tokens of a \<open>PairInfo\<close> are the arguments of the call, in the caller's order.\<close>

lemma getPairInfo_caller_order:
  "getPairInfo d cfg tokenA tokenB publicClient = Some info \<Longrightarrow>
   token0 info = tokenA \<and> token1 info = tokenB"
  by (auto simp: getPairInfo_def getPairInfo_try_def
      split: option.splits if_splits sum.splits prod.splits)

text \<open>
  Claim C6, at an input where the code departs from it: \<open>getPairInfo(KSWAP, KLC)\<close>, the
  call of \<open>getKSWAPPrice\<close>. The pair contract has the wrapped coin as its \<open>token0\<close> and
  holds 5 of it against 3 KSWAP. The \<open>PairInfo\<close> names KSWAP as \<open>token0\<close>, the caller's
  first argument, next to \<open>reserve0\<close> = 5, the reserve of the wrapped coin: the tokens
  are in the caller's order, the reserves in the factory's.
\<close>

theorem getPairInfo_KSWAP_KLC:
  "getPairInfo KalySwapService example_config KSWAP KLC (Some example_client) =
     Some \<lparr>token0 = KSWAP, token1 = KLC, pairAddress = pair_wKLC_KSWAP,
           reserve0 = ''5000000000000000000'', reserve1 = ''3000000000000000000'',
           totalSupply = ''3872983346207416885''\<rparr>
   \<and> read_token0 example_client pair_wKLC_KSWAP = Some (address wKLC)
   \<and> read_getReserves example_client pair_wKLC_KSWAP
       = Some (5000000000000000000, 3000000000000000000, 1700000000)
   \<and> address KSWAP \<noteq> address wKLC"
  by (simp add: pair_defs example_defs digit_char_def bigint_toString.simps)

section \<open>Values of the price impact\<close>

lemma calculatePriceImpact_no_pair:
  "getPairAddress d cfg tokenIn tokenOut publicClient = None
     \<or> getPairAddress d cfg tokenIn tokenOut publicClient = Some [] \<Longrightarrow>
   calculatePriceImpact d cfg L tokenIn tokenOut amountIn publicClient = Fin 0"
  by (auto simp: calculatePriceImpact_def calculatePriceImpact_try_def)

lemma calculatePriceImpact_read_failure:
  "getPairAddress d cfg tokenIn tokenOut (Some c) = Some p \<Longrightarrow>
   read_getReserves c p = None \<or> read_token0 c p = None \<Longrightarrow>
   calculatePriceImpact d cfg L tokenIn tokenOut amountIn (Some c) = Fin 0"
  by (auto simp: calculatePriceImpact_def calculatePriceImpact_try_def split: option.splits)

lemma calculatePriceImpact_formula:
  "getPairAddress d cfg tokenIn tokenOut (Some c) = Some p \<Longrightarrow> p \<noteq> [] \<Longrightarrow>
   read_getReserves c p = Some (r0, r1, ts) \<Longrightarrow> read_token0 c p = Some t0 \<Longrightarrow>
   calculatePriceImpact d cfg L tokenIn tokenOut amountIn (Some c) =
     Math_min
       (num_times
          (num_divide (parseFloat L amountIn)
             (num_plus
                (parseFloat L
                   (formatUnits L
                      (if toLowerCase t0
                            = toLowerCase (if isNative tokenIn then wethAddress cfg
                                           else address tokenIn)
                       then r0 else r1)
                      (decimals tokenIn)))
                (parseFloat L amountIn)))
          (Fin 100))
       (Fin 100)"
  by (simp add: calculatePriceImpact_def calculatePriceImpact_try_def Let_def
      resolveAddress_def getWethAddress_def)

text \<open>
  Claim C4, amended. \<open>calculatePriceImpact\<close> returns 0 when there is no pair and when
  a read of the pair contract fails. With a pool, the reserve of the input side is
  \<open>reserve0\<close> when the pair's \<open>token0\<close> equals the resolved address of \<open>tokenIn\<close>
  (native mapped to wrapped), letter case apart, and \<open>reserve1\<close> otherwise; the result is
  \<open>amountIn / (reserveIn + amountIn) * 100\<close> in the arithmetic of doubles, capped at 100.
  When \<open>amountIn\<close> parses to a finite number that is not negative, and the amount and the
  formatted reserve are not both zero, each operation rounds to a finite double and the
  result lies between 0 and 100; should the sum overflow, the result is 0.
\<close>

theorem calculatePriceImpact_cases:
  "(getPairAddress d cfg tokenIn tokenOut publicClient = None
      \<or> getPairAddress d cfg tokenIn tokenOut publicClient = Some [] \<longrightarrow>
      calculatePriceImpact d cfg L tokenIn tokenOut amountIn publicClient = Fin 0)
   \<and> (getPairAddress d cfg tokenIn tokenOut (Some c) = Some p
      \<and> (read_getReserves c p = None \<or> read_token0 c p = None) \<longrightarrow>
      calculatePriceImpact d cfg L tokenIn tokenOut amountIn (Some c) = Fin 0)
   \<and> (getPairAddress d cfg tokenIn tokenOut (Some c) = Some p \<and> p \<noteq> []
      \<and> read_getReserves c p = Some (r0, r1, ts) \<and> read_token0 c p = Some t0 \<longrightarrow>
      calculatePriceImpact d cfg L tokenIn tokenOut amountIn (Some c) =
        Math_min
          (num_times
             (num_divide (parseFloat L amountIn)
                (num_plus
                   (parseFloat L
                      (formatUnits L
                         (if toLowerCase t0
                               = toLowerCase (if isNative tokenIn then wethAddress cfg
                                              else address tokenIn)
                          then r0 else r1)
                         (decimals tokenIn)))
                   (parseFloat L amountIn)))
             (Fin 100))
          (Fin 100))
   \<and> (getPairAddress d cfg tokenIn tokenOut (Some c) = Some p \<and> p \<noteq> []
      \<and> read_getReserves c p = Some (r0, r1, ts) \<and> read_token0 c p = Some t0
      \<and> parseFloat L amountIn = Fin a
      \<and> parseFloat L
           (formatUnits L
              (if toLowerCase t0
                    = toLowerCase (if isNative tokenIn then wethAddress cfg else address tokenIn)
               then r0 else r1)
              (decimals tokenIn)) = Fin r
      \<and> is_double a \<and> is_double r \<and> 0 \<le> a \<and> 0 \<le> r \<and> 0 < a + r \<longrightarrow>
      calculatePriceImpact d cfg L tokenIn tokenOut amountIn (Some c)
        = (if fl64 (r + a) \<le> MAX_VALUE
           then Fin (min (fl64 (fl64 (a / fl64 (r + a)) * 100)) 100)
           else Fin 0)
      \<and> in_percent_range (calculatePriceImpact d cfg L tokenIn tokenOut amountIn (Some c)))"
proof (intro conjI impI)
  assume "getPairAddress d cfg tokenIn tokenOut publicClient = None
      \<or> getPairAddress d cfg tokenIn tokenOut publicClient = Some []"
  then show "calculatePriceImpact d cfg L tokenIn tokenOut amountIn publicClient = Fin 0"
    by (rule calculatePriceImpact_no_pair)
next
  assume "getPairAddress d cfg tokenIn tokenOut (Some c) = Some p
      \<and> (read_getReserves c p = None \<or> read_token0 c p = None)"
  then show "calculatePriceImpact d cfg L tokenIn tokenOut amountIn (Some c) = Fin 0"
    using calculatePriceImpact_read_failure by blast
next
  assume "getPairAddress d cfg tokenIn tokenOut (Some c) = Some p \<and> p \<noteq> []
      \<and> read_getReserves c p = Some (r0, r1, ts) \<and> read_token0 c p = Some t0"
  then show "calculatePriceImpact d cfg L tokenIn tokenOut amountIn (Some c) =
        Math_min
          (num_times
             (num_divide (parseFloat L amountIn)
                (num_plus
                   (parseFloat L
                      (formatUnits L
                         (if toLowerCase t0
                               = toLowerCase (if isNative tokenIn then wethAddress cfg
                                              else address tokenIn)
                          then r0 else r1)
                         (decimals tokenIn)))
                   (parseFloat L amountIn)))
             (Fin 100))
          (Fin 100)"
    using calculatePriceImpact_formula [of d cfg tokenIn tokenOut c p r0 r1 ts t0 L amountIn]
    by blast
next
  assume h: "getPairAddress d cfg tokenIn tokenOut (Some c) = Some p \<and> p \<noteq> []
      \<and> read_getReserves c p = Some (r0, r1, ts) \<and> read_token0 c p = Some t0
      \<and> parseFloat L amountIn = Fin a
      \<and> parseFloat L
           (formatUnits L
              (if toLowerCase t0
                    = toLowerCase (if isNative tokenIn then wethAddress cfg else address tokenIn)
               then r0 else r1)
              (decimals tokenIn)) = Fin r
      \<and> is_double a \<and> is_double r \<and> 0 \<le> a \<and> 0 \<le> r \<and> 0 < a + r"
  then have d: "is_double a" "is_double r" "0 \<le> a" "0 \<le> r" "0 < a + r"
    by simp_all
  from h have f: "calculatePriceImpact d cfg L tokenIn tokenOut amountIn (Some c)
        = Math_min (num_times (num_divide (Fin a) (num_plus (Fin r) (Fin a))) (Fin 100)) (Fin 100)"
    using calculatePriceImpact_formula [of d cfg tokenIn tokenOut c p r0 r1 ts t0 L amountIn]
    by simp
  show "calculatePriceImpact d cfg L tokenIn tokenOut amountIn (Some c)
        = (if fl64 (r + a) \<le> MAX_VALUE
           then Fin (min (fl64 (fl64 (a / fl64 (r + a)) * 100)) 100)
           else Fin 0)"
    unfolding f by (rule rounded_impact(1) [OF d])
  show "in_percent_range (calculatePriceImpact d cfg L tokenIn tokenOut amountIn (Some c))"
    unfolding f by (rule rounded_impact(2) [OF d])
qed

lemmas impact_defs = calculatePriceImpact_def calculatePriceImpact_try_def

lemma example_impact_first_hop:
  "calculatePriceImpact KalySwapService example_config example_lib KSWAP wKLC ''1''
     (Some example_client) = Fin 25"
  by (simp add: impact_defs pair_defs example_defs example_lib_def case_defs round64_values)

lemma example_impact_no_pair:
  "calculatePriceImpact KalySwapService example_config example_lib KSWAP USDT ''1''
     (Some example_client) = Fin 0"
  by (simp add: impact_defs pair_defs example_defs example_lib_def case_defs)

text \<open>
  The range fails for a negative amount: \<open>'-1'\<close> against a reserve of 3 gives \<open>-50\<close>.
\<close>

theorem calculatePriceImpact_negative_amount:
  "getPairAddress KalySwapService example_config KSWAP wKLC (Some example_client)
     = Some pair_wKLC_KSWAP
   \<and> calculatePriceImpact KalySwapService example_config example_lib KSWAP wKLC ''-1''
       (Some example_client) = Fin (- 50)
   \<and> \<not> in_percent_range
         (calculatePriceImpact KalySwapService example_config example_lib KSWAP wKLC ''-1''
            (Some example_client))"
  by (simp add: impact_defs pair_defs example_defs example_lib_def case_defs round64_values)

theorem calculatePriceImpact_cases_witness:
  "calculatePriceImpact KalySwapService example_config example_lib KSWAP USDT ''1''
     (Some example_client) = Fin 0
   \<and> calculatePriceImpact KalySwapService example_config example_lib KSWAP wKLC ''1''
     (Some example_client) = Fin 25
   \<and> in_percent_range
        (calculatePriceImpact KalySwapService example_config example_lib KSWAP wKLC ''1''
           (Some example_client))"
  using calculatePriceImpact_cases [where d = KalySwapService and cfg = example_config
      and L = example_lib and tokenIn = KSWAP and tokenOut = USDT and amountIn = "''1''"
      and publicClient = "Some example_client" and c = example_client and p = "[]"
      and a = 1 and r = 3]
    calculatePriceImpact_cases [where d = KalySwapService and cfg = example_config
      and L = example_lib and tokenIn = KSWAP and tokenOut = wKLC and amountIn = "''1''"
      and publicClient = "Some example_client" and c = example_client
      and p = pair_wKLC_KSWAP and ?r0.0 = 5000000000000000000
      and ?r1.0 = 3000000000000000000 and ts = 1700000000 and ?t0.0 = "address wKLC"
      and a = 1 and r = 3]
  by (simp add: pair_defs example_defs example_lib_def case_defs round64_values double_values)

section \<open>Price impact of a multi-hop quote\<close>

lemma route3_no_direct:
  "length (getSwapRoute d cfg tokenIn tokenOut publicClient) = 3 \<Longrightarrow>
   getPairAddress d cfg tokenIn tokenOut publicClient = None"
  by (cases d)
    (auto simp: KalySwapService_getSwapRoute_def PancakeSwapService_getSwapRoute_def
      UniswapV2Service_getSwapRoute_def canSwapDirectly_def split: if_splits)

lemma BaseDexService_getQuote_fields:
  "BaseDexService_getQuote d cfg L tokenIn tokenOut amountIn publicClient = Inr q \<Longrightarrow>
   route q = getSwapRoute d cfg tokenIn tokenOut publicClient
   \<and> priceImpact q
       = JNumber (calculatePriceImpact d cfg L tokenIn tokenOut amountIn publicClient)"
  by (auto simp: BaseDexService_getQuote_def BaseDexService_getQuote_try_def Let_def
      split: option.splits if_splits sum.splits)

text \<open>
  \<open>getQuote\<close> applies \<open>calculatePriceImpact\<close> to the pair of \<open>tokenIn\<close> and \<open>tokenOut\<close>
  themselves, and the planner falls back to a bridge only when that pair is not found. So
  on one chain snapshot a quote with a three-element route reports the price impact 0,
  through the return for a missing pair.
\<close>

lemma multi_hop_priceImpact_zero:
  assumes "getQuote d cfg L tokenIn tokenOut amountIn publicClient = Inr q"
    and "length (route q) = 3"
  shows "priceImpact q = JNumber (Fin 0)
         \<and> getPairAddress d cfg tokenIn tokenOut publicClient = None"
proof -
  have base: "BaseDexService_getQuote d cfg L tokenIn tokenOut amountIn publicClient = Inr q"
  proof (cases "isWrapOperation d tokenIn tokenOut \<or> isUnwrapOperation d tokenIn tokenOut")
    case True
    from getQuote_wrap [OF True] assms show ?thesis by auto
  next
    case False
    with assms(1) show ?thesis by (cases d) simp_all
  qed
  from BaseDexService_getQuote_fields [OF base] assms(2)
  have r: "length (getSwapRoute d cfg tokenIn tokenOut publicClient) = 3"
    and i: "priceImpact q
       = JNumber (calculatePriceImpact d cfg L tokenIn tokenOut amountIn publicClient)"
    by simp_all
  from route3_no_direct [OF r]
  have n: "getPairAddress d cfg tokenIn tokenOut publicClient = None" .
  then have "calculatePriceImpact d cfg L tokenIn tokenOut amountIn publicClient = Fin 0"
    by (simp add: calculatePriceImpact_no_pair)
  with i n show ?thesis by simp
qed

lemma example_quote_KSWAP_USDT:
  "getQuote KalySwapService example_config example_lib KSWAP USDT ''1'' (Some example_client) =
     Inr \<lparr>amountOut = ''0.269043'', priceImpact = JNumber (Fin 0),
          route = [address KSWAP, address wKLC, address USDT],
          gasEstimate = Some ''200000'', executionPrice = None\<rparr>"
proof -
  have w: "\<not> isWrapOperation KalySwapService KSWAP USDT"
    "\<not> isUnwrapOperation KalySwapService KSWAP USDT"
    by (simp_all add: isWrapOperation_def isUnwrapOperation_def KSWAP_def USDT_def case_defs)
  have a: "read_getAmountsOut example_client (router example_config) 1000000000000000000
             [address KSWAP, address wKLC, address USDT]
           = Some [1000000000000000000, 1247185389041781336, 269043]"
    by (simp add: example_defs)
  have p: "parseUnits example_lib ''1'' (decimals KSWAP) = Some 1000000000000000000"
    "formatUnits example_lib 269043 (decimals USDT) = ''0.269043''"
    by (simp_all add: example_lib_def KSWAP_def USDT_def)
  from w a p show ?thesis
    by (simp add: BaseDexService_getQuote_def BaseDexService_getQuote_try_def
        example_route_KSWAP_USDT example_impact_no_pair del: getSwapRoute.simps)
qed

lemma example_first_hop_pair:
  "getPairAddress KalySwapService example_config KSWAP USDT (Some example_client) = None"
  "getPairAddress KalySwapService example_config KSWAP wKLC (Some example_client)
     = Some pair_wKLC_KSWAP"
  "read_getReserves example_client pair_wKLC_KSWAP
     = Some (5000000000000000000, 3000000000000000000, 1700000000)"
  by (simp_all add: pair_defs example_defs)

text \<open>
  Claim C5. The price impact of a multi-hop quote is not computed from the first hop's
  pair. The quote of 1 KSWAP for USDT has no direct pool and goes through the wrapped
  coin; the first hop's pair holds 3 KSWAP on the input side, which gives the impact 25,
  and the quote reports 0.
\<close>

theorem multi_hop_ignores_first_hop:
  "getPairAddress KalySwapService example_config KSWAP USDT (Some example_client) = None
   \<and> getPairAddress KalySwapService example_config KSWAP wKLC (Some example_client)
       = Some pair_wKLC_KSWAP
   \<and> read_getReserves example_client pair_wKLC_KSWAP
       = Some (5000000000000000000, 3000000000000000000, 1700000000)
   \<and> getQuote KalySwapService example_config example_lib KSWAP USDT ''1''
       (Some example_client) =
       Inr \<lparr>amountOut = ''0.269043'', priceImpact = JNumber (Fin 0),
            route = [address KSWAP, address wKLC, address USDT],
            gasEstimate = Some ''200000'', executionPrice = None\<rparr>
   \<and> calculatePriceImpact KalySwapService example_config example_lib KSWAP wKLC ''1''
       (Some example_client) = Fin 25
   \<and> JNumber (Fin 0)
       \<noteq> JNumber (calculatePriceImpact KalySwapService example_config example_lib KSWAP wKLC
                    ''1'' (Some example_client))"
  by (simp add: example_first_hop_pair example_quote_KSWAP_USDT example_impact_first_hop
      del: getQuote.simps)

section \<open>Doubling the amount\<close>

lemma impact_value:
  assumes "getPairAddress d cfg tokenIn tokenOut (Some c) = Some p" and "p \<noteq> []"
    and "read_getReserves c p = Some (r0, r1, ts)" and "read_token0 c p = Some t0"
    and "parseFloat L
           (formatUnits L
              (if toLowerCase t0
                    = toLowerCase (if isNative tokenIn then wethAddress cfg else address tokenIn)
               then r0 else r1)
              (decimals tokenIn)) = Fin r"
    and "is_double r" and "0 < r"
    and "parseFloat L amountIn = Fin x" and "is_double x" and "0 < x"
    and "r + x \<le> MAX_VALUE"
  shows "calculatePriceImpact d cfg L tokenIn tokenOut amountIn (Some c)
           = Fin (min (fl64 (fl64 (x / fl64 (r + x)) * 100)) 100)"
proof -
  from assms(7,10,11) have "fl64 (r + x) \<le> MAX_VALUE"
    by (intro sum_within_doubles) simp_all
  moreover from assms(7,10) have "0 \<le> x" "0 \<le> r" "0 < x + r"
    by simp_all
  ultimately show ?thesis
    using calculatePriceImpact_formula [OF assms(1-4), of L amountIn] assms(5,8)
      rounded_impact(1) [OF assms(9,6)]
    by simp
qed

text \<open>Without rounding the impact of the doubled amount is strictly larger.\<close>

lemma exact_impact_doubling:
  fixes r x :: real
  assumes "0 < r" and "0 < x"
  shows "x / (r + x) * 100 < 2 * x / (r + 2 * x) * 100"
proof -
  from assms have pos: "0 < r + x" "0 < r + 2 * x"
    by simp_all
  from assms have "0 < r * x"
    by simp
  then have "x * (r + 2 * x) < 2 * x * (r + x)"
    by (simp add: algebra_simps)
  with pos have "x / (r + x) < 2 * x / (r + 2 * x)"
    by (simp only: pos_divide_less_eq pos_less_divide_eq times_divide_eq_left mult.commute)
  then show ?thesis
    by (rule mult_strict_right_mono) simp
qed


lemma example_pool:
  "getPairAddress KalySwapService example_config KSWAP wKLC (Some example_client)
     = Some pair_wKLC_KSWAP"
  "getPairAddress KalySwapService example_config KSWAP wKLC (Some drained_client)
     = Some pair_wKLC_KSWAP"
  "pair_wKLC_KSWAP \<noteq> []"
  "read_getReserves example_client pair_wKLC_KSWAP
     = Some (5000000000000000000, 3000000000000000000, 1700000000)"
  "read_getReserves drained_client pair_wKLC_KSWAP = Some (1000, 1000, 1700000000)"
  "read_token0 example_client pair_wKLC_KSWAP = Some (address wKLC)"
  "read_token0 drained_client pair_wKLC_KSWAP = Some (address wKLC)"
  by (simp_all add: pair_defs example_defs drained_client_def)

lemma example_reserve:
  "parseFloat example_lib
     (formatUnits example_lib
        (if toLowerCase (address wKLC)
              = toLowerCase (if isNative KSWAP then wethAddress example_config
                             else address KSWAP)
         then 5000000000000000000 else 3000000000000000000)
        (decimals KSWAP)) = Fin 3"
  "parseFloat example_lib
     (formatUnits example_lib
        (if toLowerCase (address wKLC)
              = toLowerCase (if isNative KSWAP then wethAddress example_config
                             else address KSWAP)
         then 1000 else 1000)
        (decimals KSWAP)) = Fin dust"
  by (simp_all add: example_defs example_lib_def case_defs)

lemma example_amounts:
  "parseFloat example_lib ''1'' = Fin 1"
  "parseFloat example_lib ''2'' = Fin (2 * 1)"
  "parseFloat example_lib ''100'' = Fin 100"
  "parseFloat example_lib ''200'' = Fin (2 * 100)"
  "parseFloat example_lib ''1e308'' = Fin huge"
  "parseFloat example_lib ''2e308'' = PosInf"
  by (simp_all add: example_lib_def)

lemma example_within_doubles:
  "3 + 2 * 1 \<le> MAX_VALUE" "dust + 100 \<le> MAX_VALUE" "dust + 2 * 100 \<le> MAX_VALUE"
  "3 + huge \<le> MAX_VALUE"
  by (simp_all add: MAX_VALUE_def dust_value huge_value)




text \<open>
  The bound on the amount is needed. \<open>'1e308'\<close> is a double and gives the impact 100
  against a reserve of 3; its double, \<open>'2e308'\<close>, reads as \<open>Infinity\<close>, and the quotient
  of two infinities is \<open>NaN\<close>, which no comparison relates to 100.
\<close>

lemma priceImpact_beyond_doubles:
  "calculatePriceImpact KalySwapService example_config example_lib KSWAP wKLC ''1e308''
       (Some example_client) = Fin 100
   \<and> calculatePriceImpact KalySwapService example_config example_lib KSWAP wKLC ''2e308''
       (Some example_client) = NaN
   \<and> \<not> num_le
         (calculatePriceImpact KalySwapService example_config example_lib KSWAP wKLC ''1e308''
            (Some example_client))
         (calculatePriceImpact KalySwapService example_config example_lib KSWAP wKLC ''2e308''
            (Some example_client))"
proof -
  have r: "0 < (3::real)"
    by simp
  have nz: "huge \<noteq> 0"
    using huge_bounds(1) by simp
  have a: "calculatePriceImpact KalySwapService example_config example_lib KSWAP wKLC ''1e308''
       (Some example_client) = Fin 100"
    unfolding impact_value [OF example_pool(1,3,4,6) example_reserve(1) double_values(4) r
        example_amounts(5) huge_double huge_bounds(1) example_within_doubles(4)]
    by (simp add: fl64_3_huge nz fl64_values)
  have b: "calculatePriceImpact KalySwapService example_config example_lib KSWAP wKLC ''2e308''
       (Some example_client) = NaN"
    unfolding calculatePriceImpact_formula [OF example_pool(1,3,4,6)] example_reserve(1)
      example_amounts(6)
    by simp
  show ?thesis
    unfolding a b by (simp add: num_le_def)
qed

section \<open>The router call of a swap\<close>





end
